theory Spec2Isabelle
  imports Main
begin

section \<open>The linting provider of vscode-sqlfluff\<close>

text \<open>
  A shallow embedding of \<^verbatim>\<open>src/features/providers/lint.ts\<close>. The file holds two variants
  of class \<^verbatim>\<open>LintingProvider\<close>: the current one (lines 1-144), which calls
  \<^verbatim>\<open>SQLFluff.run\<close>, and the related one (lines 145-345), which spawns the executable
  itself. Definitions of the second variant carry the suffix \<^verbatim>\<open>2\<close>.

  The editor host (\<^verbatim>\<open>vscode\<close>), \<^verbatim>\<open>Configuration\<close>, \<^verbatim>\<open>SQLFluff\<close>,
  \<^verbatim>\<open>Utilities\<close>, \<^verbatim>\<open>normalize\<close>, \<^verbatim>\<open>LineDecoder\<close> and
  \<^verbatim>\<open>ThrottledDelayer\<close> are imported by the file and are not part of it. What they
  return is a parameter of the model (a field of the state that the host owns); what the
  provider does to them (a subscription, a message shown, a line logged, a run requested)
  is recorded in the state.
\<close>

subsection \<open>Data\<close>

text \<open>\<^verbatim>\<open>enum RunTrigger\<close>, lines 9-13.\<close>

datatype RunTrigger = onSave | onType | off

text \<open>
  A \<^verbatim>\<open>vscode.Diagnostic\<close> is opaque to the provider: it only stores what
  \<^verbatim>\<open>linter.process\<close> returns.
\<close>

datatype Diagnostic = Diagnostic string

text \<open>
  What the provider reads of a \<^verbatim>\<open>vscode.TextDocument\<close>. The \<^verbatim>\<open>uri\<close> stands for
  the \<^verbatim>\<open>Uri\<close> object and for \<^verbatim>\<open>uri.toString()\<close>, the key of the delayer table. The text
  of a document is live: \<^verbatim>\<open>getText()\<close> reads it from the host when it is called.
\<close>

record TextDocument =
  uri :: string
  languageId :: string
  fileName :: string

text \<open>\<^verbatim>\<open>interface Linter\<close>, lines 15-18.\<close>

record Linter =
  linter_languageId :: "string list"
  process :: "string list \<Rightarrow> Diagnostic list"

text \<open>
  The static methods of \<^verbatim>\<open>Configuration\<close> that the first variant calls. Each call reads
  the current settings, so the record is a value the host may replace.
\<close>

record Configuration =
  runTrigger :: RunTrigger
  delay :: nat
  lintEntireProject :: bool
  lintFileArguments :: "string list"
  workingDirectory :: "string \<Rightarrow> string"

text \<open>The arguments of \<^verbatim>\<open>SQLFluff.run\<close> (lines 127-132) and what the provider reads of its result.\<close>

datatype SQLFluffCommand = LINT

record SQLFluffCommandOptions =
  targetFileFullPath :: "string option"
  fileContents :: "string option"

record SQLFluffRun =
  run_workingDirectory :: string
  run_command :: SQLFluffCommand
  run_args :: "string list"
  run_options :: SQLFluffCommandOptions

record CommandResult =
  succeeded :: bool
  lines :: "string list option"

text \<open>A JavaScript exception; inside an \<^verbatim>\<open>async\<close> function or a promise executor it rejects the promise.\<close>

datatype JsError = TypeError

text \<open>
  The host events the provider subscribes to (lines 38, 41, 42, 64 and 68). A subscription
  returns a \<^verbatim>\<open>Disposable\<close>, here the number of the subscription.
\<close>

datatype Listener =
  ConfigurationListener | OpenListener | CloseListener | ChangeListener | SaveListener

text \<open>
  The closure handed to \<^verbatim>\<open>delayer.trigger\<close> at lines 107-109: the document and the
  \<^verbatim>\<open>currentDocument\<close> flag it captures.
\<close>

record Task =
  task_document :: TextDocument
  task_currentDocument :: bool

text \<open>
  Modelled from the spec: class \<^verbatim>\<open>ThrottledDelayer\<close> of \<^verbatim>\<open>../helper/async\<close>, which
  is not among the sources. Section 4.2 of the specification: \<^verbatim>\<open>trigger(task)\<close> records
  the task as the latest pending unit of work, replacing a queued one; the queued task
  starts after the delay when nothing is in flight, and after the task in flight
  completes otherwise; there is no cancellation from outside.
\<close>

record 't ThrottledDelayer =
  delayer_delay :: nat
  pending :: "'t option"
  inFlight :: bool

text \<open>Modelled from the spec: the constructor \<^verbatim>\<open>new ThrottledDelayer(delay)\<close>; nothing is queued or in flight.\<close>

definition new_ThrottledDelayer :: "nat \<Rightarrow> 't ThrottledDelayer" where
  "new_ThrottledDelayer d = \<lparr>delayer_delay = d, pending = None, inFlight = False\<rparr>"

text \<open>
  Modelled from the spec: \<^verbatim>\<open>ThrottledDelayer.trigger\<close>, section 4.2: the task becomes the
  latest pending unit of work and replaces a task that was queued and not started.
\<close>

definition trigger :: "'t \<Rightarrow> 't ThrottledDelayer \<Rightarrow> 't ThrottledDelayer" where
  "trigger t d = d\<lparr>pending := Some t\<rparr>"

text \<open>
  An analysis whose \<^verbatim>\<open>SQLFluff.run\<close> promise has not settled: \<^verbatim>\<open>doLint\<close> waits at line 127.
  Its \<open>owner\<close> is the delayer whose task called \<^verbatim>\<open>doLint\<close>, if one did: \<^verbatim>\<open>doLint\<close> is public
  and can be called from outside the provider.
\<close>

record Analysis =
  owner :: "nat option"
  document :: TextDocument
  request :: SQLFluffRun

text \<open>
  The fields of \<^verbatim>\<open>LintingProvider\<close> (lines 24-28, the same in both variants) and the
  state of the host they act on. Delayers are objects: the table \<open>delayers\<close> holds
  references to them, and an object dropped from the table lives on while a timer or a
  promise refers to it. \<open>delayerCount\<close> is the number of delayers created so far.
\<close>

record Provider =
  executableNotFound :: bool
  documentListener :: "nat option"
  diagnosticCollection :: "string \<rightharpoonup> Diagnostic list"
  delayers :: "string \<rightharpoonup> nat"
  linter :: Linter
  delayerCount :: nat
  listeners :: "(nat \<times> Listener) list"
  nextDisposable :: nat
  workspaceFolders :: "string list option"
  liveText :: "string \<Rightarrow> string"

text \<open>The first variant: the provider, the settings, and what it has asked of its helpers.\<close>

record State = Provider +
  configuration :: Configuration
  normalize_path :: "string \<Rightarrow> string"
  delayerObjects :: "nat \<Rightarrow> Task ThrottledDelayer"
  running :: "Analysis list"
  outputChannel :: "string list"
  findFilesCalls :: "(string \<times> bool) list"

subsection \<open>Subscriptions\<close>

definition subscribe :: "Listener \<Rightarrow> 'a Provider_scheme \<Rightarrow> nat \<times> 'a Provider_scheme" where
  "subscribe l s =
     (nextDisposable s,
      s\<lparr>listeners := listeners s @ [(nextDisposable s, l)],
        nextDisposable := Suc (nextDisposable s)\<rparr>)"

definition dispose_listener :: "nat \<Rightarrow> 'a Provider_scheme \<Rightarrow> 'a Provider_scheme" where
  "dispose_listener h s = s\<lparr>listeners := filter (\<lambda>(i, l). i \<noteq> h) (listeners s)\<rparr>"

text \<open>\<^verbatim>\<open>this.documentListener = vscode.workspace.onDid...(...)\<close>: subscribe and keep the handle.\<close>

definition set_documentListener :: "Listener \<Rightarrow> 'a Provider_scheme \<Rightarrow> 'a Provider_scheme" where
  "set_documentListener l s =
     (case subscribe l s of (h, t) \<Rightarrow> t\<lparr>documentListener := Some h\<rparr>)"

text \<open>The close handler, lines 42-45 (and 212-215).\<close>

definition onDidCloseTextDocument :: "TextDocument \<Rightarrow> 'a Provider_scheme \<Rightarrow> 'a Provider_scheme" where
  "onDidCloseTextDocument textDocument s =
     (let s1 = s\<lparr>diagnosticCollection := (diagnosticCollection s)(uri textDocument := None)\<rparr>
      in s1\<lparr>delayers := (delayers s1)(uri textDocument := None)\<rparr>)"

text \<open>\<^verbatim>\<open>dispose\<close>, lines 51-54.\<close>

definition dispose :: "'a Provider_scheme \<Rightarrow> 'a Provider_scheme" where
  "dispose s = s\<lparr>diagnosticCollection := Map.empty\<rparr>"

subsection \<open>First variant: \<^verbatim>\<open>doLint\<close>, lines 112-143\<close>

text \<open>
  Lines 113-132, up to the call of \<^verbatim>\<open>SQLFluff.run\<close>. Reading
  \<^verbatim>\<open>workspaceFolders[0].uri\<close> throws when the host has no workspace folder
  (\<^verbatim>\<open>workspaceFolders\<close> is then \<^verbatim>\<open>undefined\<close>, or empty).
\<close>

definition doLint_call :: "State \<Rightarrow> TextDocument \<Rightarrow> bool \<Rightarrow> JsError + SQLFluffRun" where
  "doLint_call s doc currentDocument =
     (case workspaceFolders s of
        None \<Rightarrow> Inl TypeError
      | Some [] \<Rightarrow> Inl TypeError
      | Some (folder # _) \<Rightarrow>
          (let filePath = normalize_path s (fileName doc);
               rootPath = normalize_path s folder;
               wd = workingDirectory (configuration s) rootPath;
               args = lintFileArguments (configuration s);
               options =
                 (if runTrigger (configuration s) = onSave \<or> \<not> currentDocument
                  then \<lparr>targetFileFullPath = Some filePath, fileContents = None\<rparr>
                  else \<lparr>targetFileFullPath = Some filePath,
                         fileContents = Some (liveText s (uri doc))\<rparr>)
           in Inr \<lparr>run_workingDirectory = wd, run_command = LINT, run_args = args,
                    run_options = options\<rparr>))"

text \<open>Lines 134-142, after the \<^verbatim>\<open>await\<close>: \<^verbatim>\<open>result.lines?.length > 0\<close> is false for absent lines.\<close>

definition doLint_resume :: "TextDocument \<Rightarrow> CommandResult \<Rightarrow> State \<Rightarrow> State" where
  "doLint_resume doc result s =
     (let s1 = (if \<not> succeeded result
                then s\<lparr>outputChannel := outputChannel s @ [''Linting command failed to execute'']\<rparr>
                else s)
      in case lines result of
           None \<Rightarrow> s1
         | Some ls \<Rightarrow>
             if length ls > 0
             then s1\<lparr>diagnosticCollection :=
                       (diagnosticCollection s1)(uri doc \<mapsto> process (linter s1) ls)\<rparr>
             else s1)"

subsection \<open>First variant: the file pattern and the file regex, lines 20-21\<close>

text \<open>
  A JavaScript string is a sequence of UTF-16 code units, here natural numbers. The
  regular expressions of the source need literals, the dot, alternation, sequence and the
  star; \<open>Never\<close> and \<open>Empty\<close> are what derivatives add. The dot of a regex without the
  \<^verbatim>\<open>s\<close> flag matches every code unit but the four line terminators.
\<close>

datatype regex =
  Never | Empty | Lit nat | Dot | Alt regex regex | Seq regex regex | Star regex

definition lineTerminator :: "nat \<Rightarrow> bool" where
  "lineTerminator c = (c = 10 \<or> c = 13 \<or> c = 8232 \<or> c = 8233)"

fun nullable :: "regex \<Rightarrow> bool" where
  "nullable Never = False"
| "nullable Empty = True"
| "nullable (Lit a) = False"
| "nullable Dot = False"
| "nullable (Alt r q) = (nullable r \<or> nullable q)"
| "nullable (Seq r q) = (nullable r \<and> nullable q)"
| "nullable (Star r) = True"

fun deriv :: "nat \<Rightarrow> regex \<Rightarrow> regex" where
  "deriv c Never = Never"
| "deriv c Empty = Never"
| "deriv c (Lit a) = (if c = a then Empty else Never)"
| "deriv c Dot = (if lineTerminator c then Never else Empty)"
| "deriv c (Alt r q) = Alt (deriv c r) (deriv c q)"
| "deriv c (Seq r q) =
     (if nullable r then Alt (Seq (deriv c r) q) (deriv c q) else Seq (deriv c r) q)"
| "deriv c (Star r) = Seq (deriv c r) (Star r)"

text \<open>
  A regex anchored by \<^verbatim>\<open>^\<close> and \<^verbatim>\<open>$\<close> without the \<^verbatim>\<open>m\<close> flag matches the whole string or
  nothing; \<^verbatim>\<open>exec\<close> then returns a match exactly when the whole string is in the language.
\<close>

fun matches :: "regex \<Rightarrow> nat list \<Rightarrow> bool" where
  "matches r [] = nullable r"
| "matches r (c # cs) = matches (deriv c r) cs"

definition units :: "string \<Rightarrow> nat list" where
  "units s = map of_char s"

fun literal :: "nat list \<Rightarrow> regex" where
  "literal [] = Empty"
| "literal (c # cs) = Seq (Lit c) (literal cs)"

definition filePattern :: string where
  "filePattern = ''**/*.{sql,sql-bigquery,jinja-sql}''"

text \<open>\<^verbatim>\<open>/^.*\.(sql|sql-bigquery|jinja-sql)$/\<close>\<close>

definition fileRegex :: regex where
  "fileRegex =
     Seq (Star Dot)
       (Seq (literal (units ''.''))
          (Alt (literal (units ''sql''))
             (Alt (literal (units ''sql-bigquery'')) (literal (units ''jinja-sql'')))))"

definition fileRegex_exec :: "nat list \<Rightarrow> bool" where
  "fileRegex_exec path = matches fileRegex path"



subsection \<open>First variant: \<^verbatim>\<open>triggerLint\<close>, lines 86-110\<close>

definition triggerLint :: "TextDocument \<Rightarrow> bool \<Rightarrow> bool \<Rightarrow> State \<Rightarrow> State" where
  "triggerLint textDocument forceLint currentDocument s =
     (if languageId textDocument \<notin> set (linter_languageId (linter s))
         \<or> executableNotFound s
         \<or> (runTrigger (configuration s) = off \<and> \<not> forceLint)
      then s
      else
        (let key = uri textDocument;
             task = \<lparr>task_document = textDocument, task_currentDocument = currentDocument\<rparr>
         in case (case delayers s key of
                    Some r \<Rightarrow> (r, s)
                  | None \<Rightarrow>
                      (let delayer =
                             (if runTrigger (configuration s) = onType
                              then new_ThrottledDelayer (delay (configuration s))
                              else new_ThrottledDelayer 0);
                           r = delayerCount s
                       in (r, s\<lparr>delayerCount := Suc r,
                                 delayerObjects := (delayerObjects s)(r := delayer),
                                 delayers := (delayers s)(key \<mapsto> r)\<rparr>)))
            of (r, s1) \<Rightarrow>
              s1\<lparr>delayerObjects := (delayerObjects s1)(r := trigger task (delayerObjects s1 r))\<rparr>))"

subsection \<open>First variant: \<^verbatim>\<open>lintProject\<close>, lines 74-84\<close>

text \<open>Line 75: the search is asked of the host with the fixed pattern; its answer comes later.\<close>

definition lintProject :: "bool \<Rightarrow> State \<Rightarrow> State" where
  "lintProject forceLint s = s\<lparr>findFilesCalls := findFilesCalls s @ [(filePattern, forceLint)]\<rparr>"

text \<open>Lines 76-77: the files of the answer, by their \<^verbatim>\<open>path\<close>, that the loop opens.\<close>

definition lintProject_files :: "nat list list \<Rightarrow> nat list list" where
  "lintProject_files files = filter fileRegex_exec files"

text \<open>
  Lines 76-82: every file the loop opens is handed to \<^verbatim>\<open>triggerLint\<close> once the host has
  opened it; \<open>openTextDocument\<close> is the document the host returns for a path.
\<close>

definition lintProject_found ::
    "(nat list \<Rightarrow> TextDocument) \<Rightarrow> bool \<Rightarrow> nat list list \<Rightarrow> State \<Rightarrow> State" where
  "lintProject_found openTextDocument forceLint files s =
     fold (\<lambda>file t. triggerLint (openTextDocument file) forceLint False t)
       (lintProject_files files) s"

subsection \<open>First variant: \<^verbatim>\<open>loadConfiguration\<close> and \<^verbatim>\<open>activate\<close>, lines 35-72\<close>

definition loadConfiguration :: "State \<Rightarrow> State" where
  "loadConfiguration s =
     (let s1 = s\<lparr>delayers := Map.empty\<rparr>;
          s2 = (case documentListener s1 of
                  Some h \<Rightarrow> dispose_listener h s1
                | None \<Rightarrow> s1);
          s3 = (if runTrigger (configuration s2) = onType
                then set_documentListener ChangeListener s2
                else s2);
          s4 = set_documentListener SaveListener s3
      in if lintEntireProject (configuration s4) then lintProject False s4 else s4)"

definition activate :: "State \<Rightarrow> State" where
  "activate s =
     (let s1 = s\<lparr>diagnosticCollection := Map.empty\<rparr>;
          s2 = snd (subscribe ConfigurationListener s1);
          s3 = loadConfiguration s2;
          s4 = snd (subscribe OpenListener s3);
          s5 = snd (subscribe CloseListener s4)
      in if lintEntireProject (configuration s5) then lintProject False s5 else s5)"

subsection \<open>First variant: the provider under the events of its host\<close>

text \<open>
  Modelled from the spec: the timer of a \<^verbatim>\<open>ThrottledDelayer\<close> (section 4.2). When it
  fires with a task queued and nothing in flight, the task starts: \<^verbatim>\<open>doLint\<close> runs up to
  its \<^verbatim>\<open>await\<close> and the delayer is in flight until the promise settles. A \<^verbatim>\<open>doLint\<close> that
  throws has settled at once.
\<close>

definition timerFires :: "nat \<Rightarrow> State \<Rightarrow> State" where
  "timerFires r s =
     (let d = delayerObjects s r in
      case pending d of
        None \<Rightarrow> s
      | Some t \<Rightarrow>
          if inFlight d \<or> delayerCount s \<le> r then s
          else
            (case doLint_call s (task_document t) (task_currentDocument t) of
               Inl e \<Rightarrow> s\<lparr>delayerObjects := (delayerObjects s)(r := d\<lparr>pending := None\<rparr>)\<rparr>
             | Inr call \<Rightarrow>
                 s\<lparr>delayerObjects :=
                     (delayerObjects s)(r := d\<lparr>pending := None, inFlight := True\<rparr>),
                   running :=
                     running s @ [\<lparr>owner = Some r, document = task_document t, request = call\<rparr>]\<rparr>))"

text \<open>
  Modelled from the spec: the completion of a task of a \<^verbatim>\<open>ThrottledDelayer\<close> (section
  4.2). The promise of \<^verbatim>\<open>SQLFluff.run\<close> of the \<open>i\<close>-th waiting analysis resolves,
  \<^verbatim>\<open>doLint\<close> resumes after line 132 and returns, and the delayer that started it, if one
  did, is no longer in flight.
\<close>

definition runSettles :: "nat \<Rightarrow> CommandResult \<Rightarrow> State \<Rightarrow> State" where
  "runSettles i result s =
     (if i < length (running s)
      then
        (let a = running s ! i;
             s1 = doLint_resume (document a) result
                    (s\<lparr>running := take i (running s) @ drop (Suc i) (running s)\<rparr>)
         in case owner a of
              None \<Rightarrow> s1
            | Some r \<Rightarrow>
                s1\<lparr>delayerObjects :=
                     (delayerObjects s1)(r := (delayerObjects s1 r)\<lparr>inFlight := False\<rparr>)\<rparr>)
      else s)"

text \<open>
  A caller outside the provider calls the public \<^verbatim>\<open>doLint\<close> (line 112): the analysis waits
  at line 127 and no delayer has started it. A call that throws leaves no analysis.
\<close>

definition doLint_direct :: "TextDocument \<Rightarrow> bool \<Rightarrow> State \<Rightarrow> State" where
  "doLint_direct doc currentDocument s =
     (case doLint_call s doc currentDocument of
        Inl e \<Rightarrow> s
      | Inr call \<Rightarrow>
          s\<lparr>running := running s @ [\<lparr>owner = None, document = doc, request = call\<rparr>]\<rparr>)"

text \<open>What a subscription runs when its event arrives (lines 38, 41-45, 64-66 and 68).\<close>

fun handler :: "Listener \<Rightarrow> TextDocument \<Rightarrow> State \<Rightarrow> State" where
  "handler ConfigurationListener doc s = loadConfiguration s"
| "handler OpenListener doc s = triggerLint doc False False s"
| "handler CloseListener doc s = onDidCloseTextDocument doc s"
| "handler ChangeListener doc s = triggerLint doc False True s"
| "handler SaveListener doc s = triggerLint doc False False s"

text \<open>The host calls every active subscription of the kind, in the order of subscription.\<close>

definition fire :: "Listener \<Rightarrow> TextDocument \<Rightarrow> State \<Rightarrow> State" where
  "fire kind doc s =
     fold (\<lambda>(h, l) t. if l = kind then handler l doc t else t) (listeners s) s"

datatype Event =
    Activate
  | DidChangeConfiguration Configuration
  | DidOpenTextDocument TextDocument
  | DidCloseTextDocument TextDocument
  | DidSaveTextDocument TextDocument
  | DidChangeTextDocument TextDocument string
  | LintProject bool
  | FilesFound nat "nat list list" "nat list \<Rightarrow> TextDocument"
  | DoLint TextDocument bool
  | TimerFires nat
  | RunSettles nat CommandResult
  | Dispose

fun step :: "Event \<Rightarrow> State \<Rightarrow> State" where
  "step Activate s = activate s"
| "step (DidChangeConfiguration c) s =
     fire ConfigurationListener \<lparr>uri = [], languageId = [], fileName = []\<rparr> (s\<lparr>configuration := c\<rparr>)"
| "step (DidOpenTextDocument doc) s = fire OpenListener doc s"
| "step (DidCloseTextDocument doc) s = fire CloseListener doc s"
| "step (DidSaveTextDocument doc) s = fire SaveListener doc s"
| "step (DidChangeTextDocument doc text) s =
     fire ChangeListener doc (s\<lparr>liveText := (liveText s)(uri doc := text)\<rparr>)"
| "step (LintProject forceLint) s = lintProject forceLint s"
| "step (FilesFound i files openTextDocument) s =
     (if i < length (findFilesCalls s)
      then lintProject_found openTextDocument (snd (findFilesCalls s ! i)) files
             (s\<lparr>findFilesCalls := take i (findFilesCalls s) @ drop (Suc i) (findFilesCalls s)\<rparr>)
      else s)"
| "step (DoLint doc currentDocument) s = doLint_direct doc currentDocument s"
| "step (TimerFires r) s = timerFires r s"
| "step (RunSettles i result) s = runSettles i result s"
| "step Dispose s = dispose s"

definition run :: "Event list \<Rightarrow> State \<Rightarrow> State" where
  "run es s = fold step es s"

section \<open>Second variant, lines 145-345\<close>

subsection \<open>Data\<close>

text \<open>\<^verbatim>\<open>RunTrigger.from\<close>, lines 165-173.\<close>

definition RunTrigger_from :: "string \<Rightarrow> RunTrigger" where
  "RunTrigger_from v =
     (if v = ''onType'' then onType else if v = ''onSave'' then onSave else off)"

text \<open>\<^verbatim>\<open>interface LinterConfiguration\<close>, lines 176-183.\<close>

record LinterConfiguration =
  executable :: string
  fileArgs :: "string list"
  bufferArgs :: "string list"
  extraArgs :: "string list"
  runTrigger2 :: string
  formatterEnabled :: bool

text \<open>
  A child process as \<^verbatim>\<open>doLint\<close> leaves it (lines 296-342): what it was spawned with, its
  \<^verbatim>\<open>pid\<close> (absent when the spawn failed), the text written to its input, and whether
  the handlers of its output are attached. The handlers close over the document and the
  executable.
\<close>

record ChildProcess =
  child_document :: TextDocument
  child_executable :: string
  child_args :: "string list"
  child_cwd :: "string option"
  child_pid :: "nat option"
  child_stdin :: "string option"
  child_stdout :: bool

text \<open>
  What \<^verbatim>\<open>cp.spawn\<close> does at line 296: it throws at once (an empty path of the executable,
  for one), or it returns a child, with a \<^verbatim>\<open>pid\<close> or, when the executable could not be
  started, without one; the failure of such a child arrives later as its \<^verbatim>\<open>error\<close> event.
\<close>

datatype Spawn = SpawnThrows | Spawned "nat option"

text \<open>The \<^verbatim>\<open>Error\<close> of a child's \<^verbatim>\<open>error\<close> event: its \<^verbatim>\<open>code\<close>, if any, and its message.\<close>

record SpawnError =
  error_code :: "string option"
  error_message :: string

text \<open>
  The second variant: the provider, its \<^verbatim>\<open>linterConfiguration\<close> (unset before the first
  load), and the host: what \<^verbatim>\<open>linter.loadConfiguration()\<close> returns now, the open
  documents, what a call of \<^verbatim>\<open>cp.spawn\<close> does, the children spawned and the messages
  shown. A task of a delayer closes over the document only (line 269).
\<close>

record State2 = Provider +
  linterConfiguration :: "LinterConfiguration option"
  linter_loadConfiguration :: "LinterConfiguration option"
  textDocuments :: "TextDocument list"
  delayerObjects2 :: "nat \<Rightarrow> TextDocument ThrottledDelayer"
  spawn :: "string \<Rightarrow> string list \<Rightarrow> Spawn"
  children :: "ChildProcess list"
  messages :: "string list"

text \<open>
  A call that returns, or throws: the state is the one reached when the exception leaves
  the function.
\<close>

datatype 's outcome = Returned 's | Thrown JsError 's

fun state_of :: "'s outcome \<Rightarrow> 's" where
  "state_of (Returned s) = s"
| "state_of (Thrown e s) = s"

subsection \<open>\<^verbatim>\<open>triggerLint\<close>, lines 256-270\<close>

text \<open>Reading \<^verbatim>\<open>this.linterConfiguration.runTrigger\<close> throws while no configuration is loaded.\<close>

definition triggerLint2 :: "TextDocument \<Rightarrow> State2 \<Rightarrow> State2 outcome" where
  "triggerLint2 textDocument s =
     (if languageId textDocument \<notin> set (linter_languageId (linter s)) \<or> executableNotFound s
      then Returned s
      else
        (case linterConfiguration s of
           None \<Rightarrow> Thrown TypeError s
         | Some lc \<Rightarrow>
             if RunTrigger_from (runTrigger2 lc) = off then Returned s
             else
               (let key = uri textDocument in
                case (case delayers s key of
                        Some r \<Rightarrow> (r, s)
                      | None \<Rightarrow>
                          (let delayer =
                                 new_ThrottledDelayer
                                   (if RunTrigger_from (runTrigger2 lc) = onType then 250 else 0);
                               r = delayerCount s
                           in (r, s\<lparr>delayerCount := Suc r,
                                     delayerObjects2 := (delayerObjects2 s)(r := delayer),
                                     delayers := (delayers s)(key \<mapsto> r)\<rparr>)))
                of (r, s1) \<Rightarrow>
                  Returned
                    (s1\<lparr>delayerObjects2 :=
                          (delayerObjects2 s1)(r := trigger textDocument (delayerObjects2 s1 r))\<rparr>))))"

text \<open>\<^verbatim>\<open>vscode.workspace.textDocuments.forEach(this.triggerLint, this)\<close>, lines 218 and 253.\<close>

fun forEach_triggerLint2 :: "TextDocument list \<Rightarrow> State2 \<Rightarrow> State2 outcome" where
  "forEach_triggerLint2 [] s = Returned s"
| "forEach_triggerLint2 (doc # docs) s =
     (case triggerLint2 doc s of
        Returned t \<Rightarrow> forEach_triggerLint2 docs t
      | Thrown e t \<Rightarrow> Thrown e t)"

subsection \<open>\<^verbatim>\<open>loadConfiguration\<close> and \<^verbatim>\<open>activate\<close>, lines 205-254\<close>

text \<open>
  With no configuration loaded and none returned, line 236 throws when the flag is set,
  and line 243 throws after the old listener is disposed otherwise.
\<close>

definition loadConfiguration2 :: "State2 \<Rightarrow> State2 outcome" where
  "loadConfiguration2 s =
     (let config = linter_loadConfiguration s;
          oldExecutable = map_option executable (linterConfiguration s);
          s1 = s\<lparr>delayers := Map.empty\<rparr>;
          s2 = (case config of
                  Some c \<Rightarrow> s1\<lparr>linterConfiguration := Some c\<rparr>
                | None \<Rightarrow> s1)
      in case linterConfiguration s2 of
           None \<Rightarrow>
             if executableNotFound s2 then Thrown TypeError s2
             else Thrown TypeError
                    (case documentListener s2 of
                       Some h \<Rightarrow> dispose_listener h s2
                     | None \<Rightarrow> s2)
         | Some lc \<Rightarrow>
             (let s3 = (if executableNotFound s2
                        then s2\<lparr>executableNotFound := (oldExecutable = Some (executable lc))\<rparr>
                        else s2);
                  s4 = (case documentListener s3 of
                          Some h \<Rightarrow> dispose_listener h s3
                        | None \<Rightarrow> s3);
                  s5 = (if RunTrigger_from (runTrigger2 lc) = onType
                        then set_documentListener ChangeListener s4
                        else set_documentListener SaveListener s4);
                  s6 = set_documentListener SaveListener s5
              in forEach_triggerLint2 (textDocuments s6) s6))"

definition activate2 :: "State2 \<Rightarrow> State2 outcome" where
  "activate2 s =
     (let s1 = s\<lparr>diagnosticCollection := Map.empty\<rparr>;
          s2 = snd (subscribe ConfigurationListener s1)
      in case loadConfiguration2 s2 of
           Thrown e t \<Rightarrow> Thrown e t
         | Returned s3 \<Rightarrow>
             (let s4 = snd (subscribe OpenListener s3);
                  s5 = snd (subscribe CloseListener s4)
              in forEach_triggerLint2 (textDocuments s5) s5))"

subsection \<open>\<^verbatim>\<open>doLint\<close>, lines 272-344\<close>

text \<open>The arguments of the spawn, lines 288-294.\<close>

definition doLint2_args :: "LinterConfiguration \<Rightarrow> TextDocument \<Rightarrow> string list" where
  "doLint2_args lc textDocument =
     (if RunTrigger_from (runTrigger2 lc) = onSave
      then fileArgs lc @ [fileName textDocument]
      else bufferArgs lc) @ extraArgs lc"

text \<open>
  The promise executor, lines 274-342. An exception in it (also one that \<^verbatim>\<open>cp.spawn\<close>
  throws) rejects the promise and no handler is attached; otherwise the promise is
  resolved at line 339 or 341, before the child has written anything.
\<close>

definition doLint2 :: "TextDocument \<Rightarrow> State2 \<Rightarrow> State2 outcome" where
  "doLint2 textDocument s =
     (case workspaceFolders s of
        None \<Rightarrow> Thrown TypeError s
      | Some [] \<Rightarrow> Thrown TypeError s
      | Some (rootPath # _) \<Rightarrow>
          (case linterConfiguration s of
             None \<Rightarrow> Thrown TypeError s
           | Some lc \<Rightarrow>
               (let options = (if rootPath \<noteq> [] then Some rootPath else None);
                    args = doLint2_args lc textDocument
                in case spawn s (executable lc) args of
                     SpawnThrows \<Rightarrow> Thrown TypeError s
                   | Spawned pid \<Rightarrow>
                       (let child =
                              \<lparr>child_document = textDocument,
                               child_executable = executable lc,
                               child_args = args,
                               child_cwd = options,
                               child_pid = pid,
                               child_stdin =
                                 (if pid \<noteq> None \<and> RunTrigger_from (runTrigger2 lc) = onType
                                  then Some (liveText s (uri textDocument))
                                  else None),
                               child_stdout = (pid \<noteq> None)\<rparr>
                        in Returned (s\<lparr>children := children s @ [child]\<rparr>)))))"

text \<open>
  The handler of the child's \<^verbatim>\<open>error\<close> event, lines 297-313; \<^verbatim>\<open>error.message\<close> is falsy when
  it is empty.
\<close>

definition onError :: "TextDocument \<Rightarrow> string \<Rightarrow> SpawnError \<Rightarrow> State2 \<Rightarrow> State2" where
  "onError textDocument exe error s =
     (if executableNotFound s then s
      else
        (let message =
               (if error_code error = Some ''ENOENT''
                then ''Cannot lint '' @ fileName textDocument
                       @ ''. The executable was not found. Use the 'Executable Path' setting to configure the location of the executable''
                else if error_message error \<noteq> [] then error_message error
                else ''Failed to run executable using path: '' @ exe @ ''. Reason is unknown.'');
             s1 = s\<lparr>executableNotFound := True\<rparr>
         in s1\<lparr>messages := messages s1 @ [message]\<rparr>))"

text \<open>
  \<^verbatim>\<open>onEndEvent\<close>, lines 319-329; \<open>decoded\<close> is what \<^verbatim>\<open>decoder.getLines()\<close> returns once the
  output has ended.
\<close>

definition onEndEvent :: "TextDocument \<Rightarrow> string list option \<Rightarrow> State2 \<Rightarrow> State2" where
  "onEndEvent textDocument decoded s =
     (let diagnostics =
            (case decoded of
               None \<Rightarrow> []
             | Some ls \<Rightarrow> if length ls > 0 then process (linter s) ls else [])
      in s\<lparr>diagnosticCollection := (diagnosticCollection s)(uri textDocument \<mapsto> diagnostics)\<rparr>)"

subsection \<open>The provider under the events of its host\<close>

text \<open>
  Modelled from the spec: the timer of a \<^verbatim>\<open>ThrottledDelayer\<close> (section 4.2) starts the
  queued task. The promise of this \<^verbatim>\<open>doLint\<close> has settled when the call returns, so the
  delayer is never left in flight.
\<close>

definition timerFires2 :: "nat \<Rightarrow> State2 \<Rightarrow> State2 outcome" where
  "timerFires2 r s =
     (let d = delayerObjects2 s r in
      case pending d of
        None \<Rightarrow> Returned s
      | Some doc \<Rightarrow>
          if inFlight d \<or> delayerCount s \<le> r then Returned s
          else doLint2 doc (s\<lparr>delayerObjects2 := (delayerObjects2 s)(r := d\<lparr>pending := None\<rparr>)\<rparr>))"

fun handler2 :: "Listener \<Rightarrow> TextDocument \<Rightarrow> State2 \<Rightarrow> State2 outcome" where
  "handler2 ConfigurationListener doc s = loadConfiguration2 s"
| "handler2 OpenListener doc s = triggerLint2 doc s"
| "handler2 CloseListener doc s = Returned (onDidCloseTextDocument doc s)"
| "handler2 ChangeListener doc s = triggerLint2 doc s"
| "handler2 SaveListener doc s = triggerLint2 doc s"

text \<open>The host catches what a handler throws and goes on to the next subscription.\<close>

definition fire2 :: "Listener \<Rightarrow> TextDocument \<Rightarrow> State2 \<Rightarrow> State2" where
  "fire2 kind doc s =
     fold (\<lambda>(h, l) t. if l = kind then state_of (handler2 l doc t) else t) (listeners s) s"

datatype Event2 =
    Activate2
  | DidChangeConfiguration2 "LinterConfiguration option"
  | DidOpenTextDocument2 TextDocument
  | DidCloseTextDocument2 TextDocument
  | DidSaveTextDocument2 TextDocument
  | DidChangeTextDocument2 TextDocument string
  | TimerFires2 nat
  | ChildError nat SpawnError
  | ChildEnd nat "string list option"
  | Dispose2

fun step2 :: "Event2 \<Rightarrow> State2 \<Rightarrow> State2" where
  "step2 Activate2 s = state_of (activate2 s)"
| "step2 (DidChangeConfiguration2 c) s =
     fire2 ConfigurationListener \<lparr>uri = [], languageId = [], fileName = []\<rparr>
       (s\<lparr>linter_loadConfiguration := c\<rparr>)"
| "step2 (DidOpenTextDocument2 doc) s = fire2 OpenListener doc (s\<lparr>textDocuments := textDocuments s @ [doc]\<rparr>)"
| "step2 (DidCloseTextDocument2 doc) s =
     fire2 CloseListener doc (s\<lparr>textDocuments := filter (\<lambda>d. uri d \<noteq> uri doc) (textDocuments s)\<rparr>)"
| "step2 (DidSaveTextDocument2 doc) s = fire2 SaveListener doc s"
| "step2 (DidChangeTextDocument2 doc text) s =
     fire2 ChangeListener doc (s\<lparr>liveText := (liveText s)(uri doc := text)\<rparr>)"
| "step2 (TimerFires2 r) s = state_of (timerFires2 r s)"
| "step2 (ChildError i error) s =
     (if i < length (children s)
      then onError (child_document (children s ! i)) (child_executable (children s ! i)) error s
      else s)"
| "step2 (ChildEnd i decoded) s =
     (if i < length (children s) \<and> child_stdout (children s ! i)
      then onEndEvent (child_document (children s ! i)) decoded s
      else s)"
| "step2 Dispose2 s = dispose s"

section \<open>Paths with an SQL ending\<close>



section \<open>Runs of the second variant\<close>

definition run2 :: "Event2 list \<Rightarrow> State2 \<Rightarrow> State2" where
  "run2 es s = fold step2 es s"

section \<open>Delayers and the analyses they started\<close>

text \<open>The waiting analyses that a delayer started.\<close>

definition started_by_delayer :: "State \<Rightarrow> Analysis list" where
  "started_by_delayer s = filter (\<lambda>a. owner a \<noteq> None) (running s)"

text \<open>
  No two waiting analyses were started by the same delayer, and the delayer that started
  one exists and is in flight.
\<close>

definition one_per_delayer :: "State \<Rightarrow> bool" where
  "one_per_delayer s \<longleftrightarrow>
     distinct (map owner (started_by_delayer s))
     \<and> (\<forall>a\<in>set (running s). \<forall>r. owner a = Some r
           \<longrightarrow> inFlight (delayerObjects s r) \<and> r < delayerCount s)"

text \<open>
  Every waiting analysis was started by the delayer that the table holds for its
  document, and the table holds the delayer of every queued task under the identity of
  the task's document.
\<close>

definition table_owns :: "State \<Rightarrow> bool" where
  "table_owns s \<longleftrightarrow>
     (\<forall>a\<in>set (running s). owner a \<noteq> None \<and> delayers s (uri (document a)) = owner a)
     \<and> (\<forall>r t. r < delayerCount s \<longrightarrow> pending (delayerObjects s r) = Some t
            \<longrightarrow> delayers s (uri (task_document t)) = Some r)"

text \<open>
  The events that drop no delayer from the table and start no analysis past the
  delayers: all but activation and a change of configuration, which run
  \<^verbatim>\<open>loadConfiguration\<close>, the close of a document, and a direct call of \<^verbatim>\<open>doLint\<close>.
\<close>

fun stable :: "Event \<Rightarrow> bool" where
  "stable Activate = False"
| "stable (DidChangeConfiguration c) = False"
| "stable (DidCloseTextDocument d) = False"
| "stable (DoLint d c) = False"
| "stable e = True"

section \<open>The flag and the executable path\<close>

text \<open>
  Relative to the executable path \<open>old\<close> under which the flag was set: either the flag
  is still set and the path is \<open>old\<close>, or the flag is cleared, the path differs from
  \<open>old\<close>, and so does the path the linter would load now.
\<close>

definition tracks :: "string option \<Rightarrow> State2 \<Rightarrow> bool" where
  "tracks old t \<longleftrightarrow>
     (executableNotFound t \<and> map_option executable (linterConfiguration t) = old)
     \<or> (\<not> executableNotFound t \<and> map_option executable (linterConfiguration t) \<noteq> old
        \<and> (\<forall>c. linter_loadConfiguration t = Some c \<longrightarrow> Some (executable c) \<noteq> old))"

section \<open>Concrete states\<close>

text \<open>A linter for SQL, a document, and a provider that has tracked nothing yet.\<close>

definition example_linter :: Linter where
  "example_linter = \<lparr>linter_languageId = [''sql'', ''jinja-sql''], process = map Diagnostic\<rparr>"

definition example_document :: TextDocument where
  "example_document = \<lparr>uri = ''file:///w/a.sql'', languageId = ''sql'', fileName = ''/w/a.sql''\<rparr>"

definition example_configuration :: "RunTrigger \<Rightarrow> Configuration" where
  "example_configuration mode =
     \<lparr>runTrigger = mode, delay = 100, lintEntireProject = False,
      lintFileArguments = [''--format'', ''json''], workingDirectory = (\<lambda>root. root)\<rparr>"

definition example_state :: "RunTrigger \<Rightarrow> State" where
  "example_state mode =
     \<lparr>executableNotFound = False, documentListener = None,
      diagnosticCollection = Map.empty, delayers = Map.empty, linter = example_linter,
      delayerCount = 0, listeners = [], nextDisposable = 0,
      workspaceFolders = Some [''/w''], liveText = (\<lambda>u. ''select 1''),
      configuration = example_configuration mode, normalize_path = (\<lambda>p. p),
      delayerObjects = (\<lambda>r. new_ThrottledDelayer 0), running = [], outputChannel = [],
      findFilesCalls = []\<rparr>"

text \<open>
  The same for the second variant, with a configuration loaded for the given executable.
  On this host a spawn with an empty path throws, \<^verbatim>\<open>sqlfluff\<close> starts, and no other
  executable is found.
\<close>

definition example_spawn :: "string \<Rightarrow> string list \<Rightarrow> Spawn" where
  "example_spawn exe args =
     (if exe = [] then SpawnThrows
      else if exe = ''sqlfluff'' then Spawned (Some 4711)
      else Spawned None)"

definition example_linterConfiguration :: "string \<Rightarrow> string \<Rightarrow> LinterConfiguration" where
  "example_linterConfiguration exe mode =
     \<lparr>executable = exe, fileArgs = [''lint''], bufferArgs = [''lint'', ''-''], extraArgs = [],
      runTrigger2 = mode, formatterEnabled = False\<rparr>"

definition example_state2 :: "string \<Rightarrow> string \<Rightarrow> State2" where
  "example_state2 exe mode =
     \<lparr>executableNotFound = False, documentListener = None,
      diagnosticCollection = Map.empty, delayers = Map.empty, linter = example_linter,
      delayerCount = 0, listeners = [], nextDisposable = 0,
      workspaceFolders = Some [''/w''], liveText = (\<lambda>u. ''select 1''),
      linterConfiguration = Some (example_linterConfiguration exe mode),
      linter_loadConfiguration = Some (example_linterConfiguration exe mode),
      textDocuments = [], delayerObjects2 = (\<lambda>r. new_ThrottledDelayer 0),
      spawn = example_spawn, children = [], messages = []\<rparr>"

text \<open>An activated provider of the second variant with the executable-missing flag set.\<close>

definition example_missing :: State2 where
  "example_missing =
     (step2 Activate2 (example_state2 ''sqlfluff'' ''onSave''))\<lparr>executableNotFound := True\<rparr>"

text \<open>
  A provider of the first variant activated under \<^verbatim>\<open>onType\<close> whose settings then change to
  \<^verbatim>\<open>onSave\<close>.
\<close>

definition example_reloaded :: State where
  "example_reloaded =
     run [Activate, DidChangeConfiguration (example_configuration onSave)] (example_state onType)"

text \<open>An activated provider of the first variant with nothing queued or running.\<close>

definition example_activated :: State where
  "example_activated = activate (example_state onSave)"

text \<open>
  A document is opened and its analysis starts; the configuration changes; the document
  is saved and the timer of its new delayer fires.
\<close>

definition example_reset :: "Event list" where
  "example_reset =
     [Activate, DidOpenTextDocument example_document, TimerFires 0,
      DidChangeConfiguration (example_configuration onSave),
      DidSaveTextDocument example_document, TimerFires 1]"

text \<open>
  A document is opened and its analysis starts; the document is saved while the analysis
  runs, and the timer of its delayer fires again.
\<close>

definition example_burst :: "Event list" where
  "example_burst =
     [DidOpenTextDocument example_document, TimerFires 0,
      DidSaveTextDocument example_document, TimerFires 0]"

text \<open>
  A provider of the second variant whose document was opened, analysed by a child that is
  still running, and saved: its delayer has the next analysis queued.
\<close>

definition example_busy2 :: State2 where
  "example_busy2 =
     run2 [Activate2, DidOpenTextDocument2 example_document, TimerFires2 0,
           DidSaveTextDocument2 example_document]
       (example_state2 ''sqlfluff'' ''onSave'')"

text \<open>An error of a child with the given code and message.\<close>

definition example_error :: "string \<Rightarrow> string \<Rightarrow> SpawnError" where
  "example_error code message = \<lparr>error_code = Some code, error_message = message\<rparr>"




section \<open>The matcher accepts the language of the regex\<close>













section \<open>What \<^verbatim>\<open>doLint\<close> hands to the process runner\<close>

text \<open>
  C7. With a workspace folder open, \<^verbatim>\<open>doLint\<close> of the first variant reaches the call of
  \<^verbatim>\<open>SQLFluff.run\<close>; its options always carry the normalized file path, and they carry the
  live text of the document exactly when the trigger mode is not \<^verbatim>\<open>onSave\<close> and the
  call is flagged as using the current content.
\<close>

theorem doLint_passes_path_or_text:
  "workspaceFolders s = Some (folder # rest) \<Longrightarrow>
   \<exists>call. doLint_call s doc currentDocument = Inr call
     \<and> targetFileFullPath (run_options call) = Some (normalize_path s (fileName doc))
     \<and> fileContents (run_options call) =
         (if runTrigger (configuration s) = onSave \<or> \<not> currentDocument then None
          else Some (liveText s (uri doc)))"
  by (simp add: doLint_call_def Let_def)

theorem doLint_passes_path_or_text_witness:
  "workspaceFolders (example_state onType) = Some [''/w'']
   \<and> (\<exists>call. doLint_call (example_state onType) example_document True = Inr call
     \<and> targetFileFullPath (run_options call) = Some ''/w/a.sql''
     \<and> fileContents (run_options call) = Some ''select 1'')"
  using doLint_passes_path_or_text [of "example_state onType" "''/w''" "[]" example_document True]
  by (simp add: example_state_def example_document_def example_configuration_def)

section \<open>What a finished run does to the diagnostics\<close>

text \<open>
  C6, as stated, fails: a run that did not succeed and printed a line replaces the
  diagnostics stored for the document.
\<close>

theorem failed_run_replaces_diagnostics:
  "diagnosticCollection
     (doLint_resume example_document \<lparr>succeeded = False, lines = Some [''L010'']\<rparr>
        ((example_state onSave)\<lparr>diagnosticCollection :=
            [uri example_document \<mapsto> [Diagnostic ''old'']]\<rparr>))
     (uri example_document) = Some [Diagnostic ''L010'']"
  by (simp add: doLint_resume_def example_state_def example_linter_def)

text \<open>
  C6, amended. In the first variant the failure notice is logged exactly for a result that
  did not succeed, and the stored diagnostics change exactly when the result has at least
  one line, whether it succeeded or not: they become the parsed lines. In the second
  variant the end of the output always replaces the entry, by the empty list when there
  is no line.
\<close>

theorem doLint_resume_effect:
  "outputChannel (doLint_resume doc result s) =
     (if succeeded result then outputChannel s
      else outputChannel s @ [''Linting command failed to execute''])
   \<and> diagnosticCollection (doLint_resume doc result s) =
     (case lines result of
        Some (l # ls) \<Rightarrow> (diagnosticCollection s)(uri doc \<mapsto> process (linter s) (l # ls))
      | _ \<Rightarrow> diagnosticCollection s)
   \<and> diagnosticCollection (onEndEvent doc decoded s2) =
     (diagnosticCollection s2)(uri doc \<mapsto>
        (case decoded of Some (l # ls) \<Rightarrow> process (linter s2) (l # ls) | _ \<Rightarrow> []))"
  by (simp add: doLint_resume_def onEndEvent_def Let_def split: option.splits list.splits)

section \<open>Closing a document\<close>

text \<open>
  C1, as stated, fails: an analysis in flight when the document is closed stores its
  diagnostics under the closed document's identity when it completes.
\<close>

theorem completion_after_close_recreates_entry:
  "diagnosticCollection
     (doLint_resume example_document \<lparr>succeeded = True, lines = Some [''L010'']\<rparr>
        (onDidCloseTextDocument example_document (example_state onSave)))
     (uri example_document) = Some [Diagnostic ''L010'']"
  by (simp add: doLint_resume_def onDidCloseTextDocument_def example_state_def
      example_linter_def Let_def)

text \<open>
  C1, amended. The close handler removes the diagnostic entry and the delayer entry of the
  document and leaves every delayer object (with the task it has queued) and every
  analysis in flight as it is. An analysis of the document that completes in any later
  state leaves the entry of the document as it finds it when its result has no line, and
  stores the parsed lines under the document's identity otherwise.
\<close>

theorem close_removes_entries_and_cancels_nothing:
  "diagnosticCollection (onDidCloseTextDocument doc s) (uri doc) = None
   \<and> delayers (onDidCloseTextDocument doc s) (uri doc) = None
   \<and> delayerObjects (onDidCloseTextDocument doc s) = delayerObjects s
   \<and> running (onDidCloseTextDocument doc s) = running s
   \<and> diagnosticCollection (doLint_resume doc result t) (uri doc) =
       (case lines result of
          Some (l # ls) \<Rightarrow> Some (process (linter t) (l # ls))
        | _ \<Rightarrow> diagnosticCollection t (uri doc))"
  by (simp add: doLint_resume_def onDidCloseTextDocument_def Let_def
      split: option.splits list.splits)

section \<open>The guard of \<^verbatim>\<open>triggerLint\<close>\<close>

text \<open>
  C4. \<^verbatim>\<open>triggerLint\<close> leaves the whole state as it is, so hands no task to any delayer,
  when the language of the document is not one of the linter's, or the
  executable-missing flag is set, or the trigger mode is \<^verbatim>\<open>off\<close> and the call is not
  forced. Otherwise, and so with the mode \<^verbatim>\<open>off\<close> and the call forced, the table holds
  a delayer for the document afterwards and the analysis of the document is the task
  that delayer has queued. The second variant has no forced call: it returns with the
  state unchanged under the first two conditions and whenever the mode is \<^verbatim>\<open>off\<close>.
\<close>

theorem triggerLint_guard:
  "(languageId d \<notin> set (linter_languageId (linter s)) \<or> executableNotFound s
      \<or> (runTrigger (configuration s) = off \<and> \<not> forceLint)
     \<longrightarrow> triggerLint d forceLint cur s = s)
   \<and> (languageId d \<in> set (linter_languageId (linter s)) \<and> \<not> executableNotFound s
       \<and> (runTrigger (configuration s) = off \<longrightarrow> forceLint)
     \<longrightarrow> (\<exists>r. delayers (triggerLint d forceLint cur s) (uri d) = Some r
            \<and> pending (delayerObjects (triggerLint d forceLint cur s) r)
                = Some \<lparr>task_document = d, task_currentDocument = cur\<rparr>))
   \<and> (languageId d \<notin> set (linter_languageId (linter s2)) \<or> executableNotFound s2
      \<or> (\<exists>lc. linterConfiguration s2 = Some lc \<and> RunTrigger_from (runTrigger2 lc) = off)
     \<longrightarrow> triggerLint2 d s2 = Returned s2)"
  by (auto simp add: triggerLint_def triggerLint2_def trigger_def Let_def split: option.splits)

theorem triggerLint_guard_witness:
  "triggerLint example_document False False (example_state off) = example_state off
   \<and> (\<exists>r. delayers (triggerLint example_document True False (example_state off))
             (uri example_document) = Some r
         \<and> pending (delayerObjects (triggerLint example_document True False (example_state off)) r)
             = Some \<lparr>task_document = example_document, task_currentDocument = False\<rparr>)
   \<and> triggerLint2 example_document (example_state2 ''sqlfluff'' ''off'')
       = Returned (example_state2 ''sqlfluff'' ''off'')"
  using triggerLint_guard [of example_document "example_state off" False False
          "example_state2 ''sqlfluff'' ''off''"]
        triggerLint_guard [of example_document "example_state off" True False
          "example_state2 ''sqlfluff'' ''off''"]
  by (simp add: example_state_def example_state2_def example_configuration_def
      example_linterConfiguration_def example_document_def example_linter_def
      RunTrigger_from_def)

section \<open>\<^verbatim>\<open>doLint\<close> without a workspace folder\<close>

text \<open>
  C9, at the failing input: with no workspace folder, or an empty list of them, \<^verbatim>\<open>doLint\<close>
  throws a \<^verbatim>\<open>TypeError\<close> at line 114 (line 274 in the second variant), which rejects
  the promise it returns.
\<close>

theorem doLint_throws_without_workspace_folder:
  "doLint_call ((example_state onSave)\<lparr>workspaceFolders := None\<rparr>) example_document False
     = Inl TypeError
   \<and> doLint_call ((example_state onSave)\<lparr>workspaceFolders := Some []\<rparr>) example_document False
     = Inl TypeError
   \<and> doLint2 example_document ((example_state2 ''sqlfluff'' ''onSave'')\<lparr>workspaceFolders := None\<rparr>)
     = Thrown TypeError ((example_state2 ''sqlfluff'' ''onSave'')\<lparr>workspaceFolders := None\<rparr>)"
  by (simp add: doLint_call_def doLint2_def example_state_def example_state2_def)

section \<open>The life of the executable-missing flag\<close>

lemma tracks_same_fields:
  "tracks old t \<Longrightarrow> executableNotFound t' = executableNotFound t \<Longrightarrow>
   linterConfiguration t' = linterConfiguration t \<Longrightarrow>
   linter_loadConfiguration t' = linter_loadConfiguration t \<Longrightarrow> tracks old t'"
  by (simp add: tracks_def)

lemma set_documentListener_fields2:
  "executableNotFound (set_documentListener l (s::State2)) = executableNotFound s"
  "linterConfiguration (set_documentListener l s) = linterConfiguration s"
  "linter_loadConfiguration (set_documentListener l s) = linter_loadConfiguration s"
  "textDocuments (set_documentListener l s) = textDocuments s"
  by (simp_all add: set_documentListener_def subscribe_def)

lemma dispose_listener_fields2:
  "executableNotFound (dispose_listener h (s::State2)) = executableNotFound s"
  "linterConfiguration (dispose_listener h s) = linterConfiguration s"
  "linter_loadConfiguration (dispose_listener h s) = linter_loadConfiguration s"
  by (simp_all add: dispose_listener_def)

lemma subscribe_fields2:
  "executableNotFound (snd (subscribe l (s::State2))) = executableNotFound s"
  "linterConfiguration (snd (subscribe l s)) = linterConfiguration s"
  "linter_loadConfiguration (snd (subscribe l s)) = linter_loadConfiguration s"
  by (simp_all add: subscribe_def)

lemma triggerLint2_fields:
  "executableNotFound (state_of (triggerLint2 d s)) = executableNotFound s"
  "linterConfiguration (state_of (triggerLint2 d s)) = linterConfiguration s"
  "linter_loadConfiguration (state_of (triggerLint2 d s)) = linter_loadConfiguration s"
  by (simp_all add: triggerLint2_def Let_def split: option.splits)

lemma forEach_triggerLint2_fields:
  "executableNotFound (state_of (forEach_triggerLint2 ds s)) = executableNotFound s
   \<and> linterConfiguration (state_of (forEach_triggerLint2 ds s)) = linterConfiguration s
   \<and> linter_loadConfiguration (state_of (forEach_triggerLint2 ds s)) = linter_loadConfiguration s"
proof (induction ds arbitrary: s)
  case Nil
  show ?case by simp
next
  case (Cons d ds)
  show ?case
  proof (cases "triggerLint2 d s")
    case (Returned t)
    with triggerLint2_fields [of d s] Cons.IH [of t] show ?thesis by simp
  next
    case (Thrown e t)
    with triggerLint2_fields [of d s] show ?thesis by simp
  qed
qed

lemma loadConfiguration2_fields:
  "linter_loadConfiguration (state_of (loadConfiguration2 s)) = linter_loadConfiguration s"
  "linterConfiguration (state_of (loadConfiguration2 s)) =
     (case linter_loadConfiguration s of Some c \<Rightarrow> Some c | None \<Rightarrow> linterConfiguration s)"
  "executableNotFound (state_of (loadConfiguration2 s)) =
     (executableNotFound s \<and>
      (case (case linter_loadConfiguration s of Some c \<Rightarrow> Some c | None \<Rightarrow> linterConfiguration s) of
         None \<Rightarrow> True
       | Some lc \<Rightarrow> map_option executable (linterConfiguration s) = Some (executable lc)))"
  by (auto simp add: loadConfiguration2_def Let_def forEach_triggerLint2_fields
      set_documentListener_fields2 dispose_listener_fields2 split: option.splits)

lemma loadConfiguration2_tracks:
  "tracks old s \<Longrightarrow> tracks old (state_of (loadConfiguration2 s))"
  unfolding tracks_def loadConfiguration2_fields
  by (cases "linterConfiguration s"; cases "linter_loadConfiguration s"; auto)

lemma handler2_tracks: "tracks old t \<Longrightarrow> tracks old (state_of (handler2 l doc t))"
proof (cases l)
  case ConfigurationListener
  assume "tracks old t"
  with ConfigurationListener show ?thesis by (simp add: loadConfiguration2_tracks)
next
  case CloseListener
  assume "tracks old t"
  then have "tracks old (onDidCloseTextDocument doc t)"
    by (rule tracks_same_fields) (simp_all add: onDidCloseTextDocument_def Let_def)
  with CloseListener show ?thesis by simp
qed (simp_all add: tracks_same_fields triggerLint2_fields)

lemma fold_handler2_tracks:
  "tracks old t \<Longrightarrow>
   tracks old (fold (\<lambda>(h, l) t. if l = kind then state_of (handler2 l doc t) else t) ls t)"
proof (induction ls arbitrary: t)
  case Nil
  then show ?case by simp
next
  case (Cons x ls)
  obtain h l where x: "x = (h, l)" by (cases x)
  from Cons.prems have "tracks old (if l = kind then state_of (handler2 l doc t) else t)"
    by (simp add: handler2_tracks)
  then have "tracks old (fold (\<lambda>(h, l) t. if l = kind then state_of (handler2 l doc t) else t) ls
      (if l = kind then state_of (handler2 l doc t) else t))"
    by (rule Cons.IH)
  with x show ?case by simp
qed

lemma fire2_tracks: "tracks old s \<Longrightarrow> tracks old (fire2 kind doc s)"
  unfolding fire2_def by (rule fold_handler2_tracks)

lemma activate2_tracks: "tracks old s \<Longrightarrow> tracks old (state_of (activate2 s))"
proof -
  assume a: "tracks old s"
  let ?s2 = "snd (subscribe ConfigurationListener (s\<lparr>diagnosticCollection := Map.empty\<rparr>))"
  from a have "tracks old ?s2"
    by (rule tracks_same_fields) (simp_all add: subscribe_def)
  then have l: "tracks old (state_of (loadConfiguration2 ?s2))"
    by (rule loadConfiguration2_tracks)
  show ?thesis
  proof (cases "loadConfiguration2 ?s2")
    case (Thrown e t)
    with l show ?thesis by (simp add: activate2_def Let_def)
  next
    case (Returned s3)
    let ?s5 = "snd (subscribe CloseListener (snd (subscribe OpenListener s3)))"
    from Returned l have "tracks old s3" by simp
    then have "tracks old ?s5"
      by (rule tracks_same_fields) (simp_all add: subscribe_def)
    then have "tracks old (state_of (forEach_triggerLint2 (textDocuments ?s5) ?s5))"
      by (rule tracks_same_fields) (simp_all add: forEach_triggerLint2_fields)
    with Returned show ?thesis by (simp add: activate2_def Let_def)
  qed
qed

lemma doLint2_fields:
  "executableNotFound (state_of (doLint2 d s)) = executableNotFound s"
  "linterConfiguration (state_of (doLint2 d s)) = linterConfiguration s"
  "linter_loadConfiguration (state_of (doLint2 d s)) = linter_loadConfiguration s"
  by (simp_all add: doLint2_def Let_def split: option.splits list.splits Spawn.splits)

lemma timerFires2_fields:
  "executableNotFound (state_of (timerFires2 r s)) = executableNotFound s"
  "linterConfiguration (state_of (timerFires2 r s)) = linterConfiguration s"
  "linter_loadConfiguration (state_of (timerFires2 r s)) = linter_loadConfiguration s"
  by (simp_all add: timerFires2_def Let_def doLint2_fields split: option.splits)

lemma step2_tracks:
  "executableNotFound s \<Longrightarrow> tracks (map_option executable (linterConfiguration s)) (step2 e s)"
proof -
  assume f: "executableNotFound s"
  let ?old = "map_option executable (linterConfiguration s)"
  from f have t: "tracks ?old s" by (simp add: tracks_def)
  have upd: "\<And>s'. executableNotFound s' = executableNotFound s \<Longrightarrow>
      linterConfiguration s' = linterConfiguration s \<Longrightarrow> tracks ?old s'"
    using f by (simp add: tracks_def)
  show ?thesis
  proof (cases e)
    case Activate2
    with t show ?thesis by (simp add: activate2_tracks)
  next
    case (DidChangeConfiguration2 c)
    then show ?thesis by (simp add: fire2_tracks upd)
  next
    case (DidOpenTextDocument2 d)
    then show ?thesis by (simp add: fire2_tracks upd)
  next
    case (DidCloseTextDocument2 d)
    then show ?thesis by (simp add: fire2_tracks upd)
  next
    case (DidSaveTextDocument2 d)
    with t show ?thesis by (simp add: fire2_tracks)
  next
    case (DidChangeTextDocument2 d body)
    then show ?thesis by (simp add: fire2_tracks upd)
  next
    case (TimerFires2 r)
    then show ?thesis by (simp add: upd timerFires2_fields)
  next
    case (ChildError i err)
    with f t show ?thesis by (simp add: onError_def)
  next
    case (ChildEnd i decoded)
    with t show ?thesis by (simp add: upd onEndEvent_def Let_def)
  next
    case Dispose2
    then show ?thesis by (simp add: upd dispose_def)
  qed
qed

lemma handler2_keeps_flag:
  "l \<noteq> ConfigurationListener \<Longrightarrow>
   executableNotFound (state_of (handler2 l doc t)) = executableNotFound t"
  by (cases l) (simp_all add: triggerLint2_fields onDidCloseTextDocument_def Let_def)

lemma fold_handler2_keeps_flag:
  "kind \<noteq> ConfigurationListener \<Longrightarrow>
   executableNotFound (fold (\<lambda>(h, l) t. if l = kind then state_of (handler2 l doc t) else t) ls t)
     = executableNotFound t"
proof (induction ls arbitrary: t)
  case Nil
  show ?case by simp
next
  case (Cons x ls)
  obtain h l where x: "x = (h, l)" by (cases x)
  let ?t = "if l = kind then state_of (handler2 l doc t) else t"
  from Cons.prems have "executableNotFound ?t = executableNotFound t"
    by (simp add: handler2_keeps_flag)
  moreover from Cons.prems
  have "executableNotFound (fold (\<lambda>(h, l) t. if l = kind then state_of (handler2 l doc t) else t) ls ?t)
      = executableNotFound ?t"
    by (rule Cons.IH)
  ultimately show ?case using x by simp
qed

lemma triggerLint_flag: "executableNotFound (triggerLint d f c s) = executableNotFound s"
  by (simp add: triggerLint_def Let_def split: option.splits)

lemma loadConfiguration_flag: "executableNotFound (loadConfiguration s) = executableNotFound s"
  by (simp add: loadConfiguration_def set_documentListener_def subscribe_def
      dispose_listener_def lintProject_def Let_def split: option.splits)

lemma handler_flag: "executableNotFound (handler l doc s) = executableNotFound s"
  by (cases l)
    (simp_all add: triggerLint_flag loadConfiguration_flag onDidCloseTextDocument_def Let_def)

lemma fold_handler_flag:
  "executableNotFound (fold (\<lambda>(h, l) t. if l = kind then handler l doc t else t) ls t)
     = executableNotFound t"
proof (induction ls arbitrary: t)
  case Nil
  show ?case by simp
next
  case (Cons x ls)
  obtain h l where x: "x = (h, l)" by (cases x)
  let ?t = "if l = kind then handler l doc t else t"
  have "executableNotFound ?t = executableNotFound t" by (simp add: handler_flag)
  moreover have "executableNotFound (fold (\<lambda>(h, l) t. if l = kind then handler l doc t else t) ls ?t)
      = executableNotFound ?t"
    by (rule Cons.IH)
  ultimately show ?case using x by simp
qed

lemma fold_triggerLint_flag:
  "executableNotFound (fold (\<lambda>file t. triggerLint (open file) f c t) files s) = executableNotFound s"
  by (induction files arbitrary: s) (simp_all add: triggerLint_flag)

lemma step_flag: "executableNotFound (step e s) = executableNotFound s"
  by (cases e)
    (simp_all add: fire_def fold_handler_flag activate_def loadConfiguration_flag subscribe_def
      lintProject_def lintProject_found_def fold_triggerLint_flag timerFires_def runSettles_def
      doLint_direct_def doLint_resume_def dispose_def Let_def split: option.splits sum.splits)

lemmas second_variant_defs = example_missing_def activate2_def loadConfiguration2_def subscribe_def
  set_documentListener_def dispose_listener_def fire2_def example_state2_def
  example_linterConfiguration_def RunTrigger_from_def Let_def triggerLint2_def

lemma example_missing_fields:
  "executableNotFound example_missing"
  "linterConfiguration (step2 (DidChangeConfiguration2 (Some (example_linterConfiguration ''/opt/sqlfluff'' ''onSave''))) example_missing)
     = Some (example_linterConfiguration ''/opt/sqlfluff'' ''onSave'')"
  "linterConfiguration (step2 (DidChangeConfiguration2 (Some (example_linterConfiguration ''sqlfluff'' ''onType''))) example_missing)
     = Some (example_linterConfiguration ''sqlfluff'' ''onType'')"
  "linterConfiguration example_missing = Some (example_linterConfiguration ''sqlfluff'' ''onSave'')"
  by (simp_all add: second_variant_defs)

text \<open>
  C5. In the second variant, from a state in which the executable-missing flag is set and
  for every event of the host: after the event the flag is still set exactly when the
  configured executable path is the one it was before the event; an event after which
  the flag is cleared is one that runs \<^verbatim>\<open>loadConfiguration\<close> (activation or a change of
  configuration); and while the flag is set \<^verbatim>\<open>triggerLint\<close> returns without scheduling.
  In the first variant no event changes the flag, which nothing there sets.
\<close>

theorem executableNotFound_cleared_by_changed_executable:
  "executableNotFound s \<Longrightarrow>
     (executableNotFound (step2 e s) \<longleftrightarrow>
        map_option executable (linterConfiguration (step2 e s))
          = map_option executable (linterConfiguration s))
     \<and> (\<not> executableNotFound (step2 e s) \<longrightarrow>
          e = Activate2 \<or> (\<exists>c. e = DidChangeConfiguration2 c))
     \<and> triggerLint2 d s = Returned s
     \<and> executableNotFound (step e1 s1) = executableNotFound s1"
proof (intro conjI)
  show "executableNotFound (step e1 s1) = executableNotFound s1"
    by (rule step_flag)
next
  assume f: "executableNotFound s"
  from step2_tracks [OF f, of e]
  show "executableNotFound (step2 e s) \<longleftrightarrow>
        map_option executable (linterConfiguration (step2 e s))
          = map_option executable (linterConfiguration s)"
    unfolding tracks_def by blast
  show "\<not> executableNotFound (step2 e s) \<longrightarrow>
          e = Activate2 \<or> (\<exists>c. e = DidChangeConfiguration2 c)"
    using f
    by (cases e)
      (simp_all add: fire2_def fold_handler2_keeps_flag timerFires2_fields onError_def
        onEndEvent_def dispose_def Let_def)
  show "triggerLint2 d s = Returned s"
    using f by (simp add: triggerLint2_def)
qed

theorem executableNotFound_cleared_by_changed_executable_witness:
  "executableNotFound example_missing
   \<and> \<not> executableNotFound
        (step2 (DidChangeConfiguration2 (Some (example_linterConfiguration ''/opt/sqlfluff'' ''onSave'')))
           example_missing)
   \<and> executableNotFound
        (step2 (DidChangeConfiguration2 (Some (example_linterConfiguration ''sqlfluff'' ''onType'')))
           example_missing)
   \<and> triggerLint2 example_document example_missing = Returned example_missing"
  using executableNotFound_cleared_by_changed_executable
          [of example_missing
            "DidChangeConfiguration2 (Some (example_linterConfiguration ''/opt/sqlfluff'' ''onSave''))"
            example_document]
        executableNotFound_cleared_by_changed_executable
          [of example_missing
            "DidChangeConfiguration2 (Some (example_linterConfiguration ''sqlfluff'' ''onType''))"
            example_document]
        example_missing_fields
  by (simp add: example_linterConfiguration_def)

section \<open>Listeners across two loads of the configuration\<close>

lemmas reload_defs = run_def activate_def loadConfiguration_def subscribe_def set_documentListener_def
  dispose_listener_def fire_def lintProject_def example_state_def example_configuration_def Let_def

lemma example_reloaded_fields:
  "listeners example_reloaded =
     [(0, ConfigurationListener), (1, ChangeListener), (3, OpenListener), (4, CloseListener),
      (5, SaveListener)]"
  "runTrigger (configuration example_reloaded) = onSave"
  "delayers example_reloaded = Map.empty"
  "delayerCount example_reloaded = 0"
  "executableNotFound example_reloaded = False"
  "linter example_reloaded = example_linter"
  by (simp_all add: example_reloaded_def reload_defs)

text \<open>
  C8, at the failing input: the provider is activated under \<^verbatim>\<open>onType\<close> and the settings
  change to \<^verbatim>\<open>onSave\<close>. The second \<^verbatim>\<open>loadConfiguration\<close> disposes the save listener of
  the first, the only one \<^verbatim>\<open>documentListener\<close> still holds; the change listener of the
  first load stays subscribed under \<^verbatim>\<open>onSave\<close>, and a change of the document still
  queues an analysis of it.
\<close>

theorem change_listener_survives_reload:
  "runTrigger (configuration example_reloaded) = onSave
   \<and> map snd (listeners example_reloaded)
       = [ConfigurationListener, ChangeListener, OpenListener, CloseListener, SaveListener]
   \<and> delayers (step (DidChangeTextDocument example_document ''select 2'') example_reloaded)
         (uri example_document) = Some 0
   \<and> pending (delayerObjects
         (step (DidChangeTextDocument example_document ''select 2'') example_reloaded) 0)
       = Some \<lparr>task_document = example_document, task_currentDocument = True\<rparr>"
  by (simp add: example_reloaded_fields fire_def triggerLint_def trigger_def
      new_ThrottledDelayer_def example_document_def example_linter_def Let_def)

section \<open>Spawn failures\<close>

lemma step2_keeps_flag:
  assumes "executableNotFound s" and "e \<noteq> Activate2" and "\<forall>c. e \<noteq> DidChangeConfiguration2 c"
  shows "executableNotFound (step2 e s)"
  using assms
  by (cases e)
    (simp_all add: fire2_def fold_handler2_keeps_flag timerFires2_fields onError_def
      onEndEvent_def dispose_def Let_def)

text \<open>
  C2, as stated, fails: a spawn error other than \<^verbatim>\<open>ENOENT\<close> sets the executable-missing
  flag.
\<close>

theorem other_spawn_error_sets_flag:
  "\<not> executableNotFound (example_state2 ''sqlfluff'' ''onSave'')
   \<and> executableNotFound
       (onError example_document ''sqlfluff''
          \<lparr>error_code = Some ''EACCES'', error_message = ''spawn sqlfluff EACCES''\<rparr>
          (example_state2 ''sqlfluff'' ''onSave''))"
  by (simp add: onError_def example_state2_def Let_def)

text \<open>
  C2, amended. After a spawn failure that the child reports by its \<^verbatim>\<open>error\<close> event the
  flag is set, whatever the kind of the failure. A failure that arrives while the flag is
  set changes nothing and shows nothing. One that arrives while it is unset sets the
  flag, shows one message and changes nothing else: for \<^verbatim>\<open>ENOENT\<close> the text that the
  executable was not found, with the file name of the document; for another kind the
  message of the error, or, when it has none, the text that the reason is unknown, with
  the path of the executable. After the handler \<^verbatim>\<open>triggerLint\<close> schedules nothing, and
  the flag stays set across every event of the host but activation and a change of
  configuration. A \<^verbatim>\<open>cp.spawn\<close> that throws is not such a failure: \<^verbatim>\<open>doLint\<close> throws with
  the state as it was, so no flag is set and no message shown.
\<close>

theorem onError_sets_flag_for_every_kind:
  "executableNotFound (onError doc exe error s)
   \<and> (executableNotFound s \<longrightarrow> onError doc exe error s = s)
   \<and> (\<not> executableNotFound s \<longrightarrow>
        onError doc exe error s =
          s\<lparr>executableNotFound := True,
            messages := messages s @
              [if error_code error = Some ''ENOENT''
               then ''Cannot lint '' @ fileName doc
                      @ ''. The executable was not found. Use the 'Executable Path' setting to configure the location of the executable''
               else if error_message error \<noteq> [] then error_message error
               else ''Failed to run executable using path: '' @ exe @ ''. Reason is unknown.'']\<rparr>)
   \<and> triggerLint2 d (onError doc exe error s) = Returned (onError doc exe error s)
   \<and> (e \<noteq> Activate2 \<and> (\<forall>c. e \<noteq> DidChangeConfiguration2 c)
        \<longrightarrow> executableNotFound (step2 e (onError doc exe error s)))
   \<and> (workspaceFolders s = Some (root # rest) \<and> linterConfiguration s = Some lc
        \<and> spawn s (executable lc) (doLint2_args lc doc) = SpawnThrows
        \<longrightarrow> doLint2 doc s = Thrown TypeError s)"
proof -
  have flag: "executableNotFound (onError doc exe error s)"
    by (simp add: onError_def Let_def)
  have "triggerLint2 d (onError doc exe error s) = Returned (onError doc exe error s)"
    using flag by (simp add: triggerLint2_def)
  moreover have "e \<noteq> Activate2 \<and> (\<forall>c. e \<noteq> DidChangeConfiguration2 c)
      \<longrightarrow> executableNotFound (step2 e (onError doc exe error s))"
    using flag by (simp add: step2_keeps_flag)
  moreover have "workspaceFolders s = Some (root # rest) \<and> linterConfiguration s = Some lc
        \<and> spawn s (executable lc) (doLint2_args lc doc) = SpawnThrows
        \<longrightarrow> doLint2 doc s = Thrown TypeError s"
    by (simp add: doLint2_def Let_def)
  moreover have "executableNotFound s \<longrightarrow> onError doc exe error s = s"
    by (simp add: onError_def)
  moreover have "\<not> executableNotFound s \<longrightarrow>
        onError doc exe error s =
          s\<lparr>executableNotFound := True,
            messages := messages s @
              [if error_code error = Some ''ENOENT''
               then ''Cannot lint '' @ fileName doc
                      @ ''. The executable was not found. Use the 'Executable Path' setting to configure the location of the executable''
               else if error_message error \<noteq> [] then error_message error
               else ''Failed to run executable using path: '' @ exe @ ''. Reason is unknown.'']\<rparr>"
    by (simp add: onError_def Let_def)
  ultimately show ?thesis using flag by blast
qed

theorem onError_sets_flag_for_every_kind_witness:
  "onError example_document ''sqlfluff'' (example_error ''EACCES'' ''spawn sqlfluff EACCES'')
       (example_state2 ''sqlfluff'' ''onSave'')
     = (example_state2 ''sqlfluff'' ''onSave'')
         \<lparr>executableNotFound := True, messages := [''spawn sqlfluff EACCES'']\<rparr>
   \<and> messages (onError example_document ''sqlfluff'' (example_error ''EPERM'' [])
       (example_state2 ''sqlfluff'' ''onSave''))
     = [''Failed to run executable using path: sqlfluff. Reason is unknown.'']
   \<and> messages (onError example_document ''sqlfluff'' (example_error ''ENOENT'' ''spawn sqlfluff ENOENT'')
       (example_state2 ''sqlfluff'' ''onSave''))
     = [''Cannot lint /w/a.sql. The executable was not found. Use the 'Executable Path' setting to configure the location of the executable'']
   \<and> onError example_document ''sqlfluff'' (example_error ''ENOENT'' ''spawn sqlfluff ENOENT'')
          ((example_state2 ''sqlfluff'' ''onSave'')\<lparr>executableNotFound := True\<rparr>)
       = (example_state2 ''sqlfluff'' ''onSave'')\<lparr>executableNotFound := True\<rparr>
   \<and> executableNotFound
       (step2 (DidSaveTextDocument2 example_document)
          (onError example_document ''sqlfluff'' (example_error ''EACCES'' ''spawn sqlfluff EACCES'')
             (example_state2 ''sqlfluff'' ''onSave'')))
   \<and> doLint2 example_document (example_state2 [] ''onSave'')
       = Thrown TypeError (example_state2 [] ''onSave'')"
proof -
  let ?s = "example_state2 ''sqlfluff'' ''onSave''"
  let ?e = "DidSaveTextDocument2 example_document"
  let ?lc = "example_linterConfiguration ''sqlfluff'' ''onSave''"
  have unset: "\<not> executableNotFound ?s"
    by (simp add: example_state2_def)
  have ev: "?e \<noteq> Activate2 \<and> (\<forall>c. ?e \<noteq> DidChangeConfiguration2 c)"
    by simp
  have throws: "workspaceFolders (example_state2 [] ''onSave'') = Some (''/w'' # [])
      \<and> linterConfiguration (example_state2 [] ''onSave'')
          = Some (example_linterConfiguration [] ''onSave'')
      \<and> spawn (example_state2 [] ''onSave'') (executable (example_linterConfiguration [] ''onSave''))
          (doLint2_args (example_linterConfiguration [] ''onSave'') example_document) = SpawnThrows"
    by (simp add: example_state2_def example_linterConfiguration_def example_spawn_def)
  have a: "onError example_document ''sqlfluff'' (example_error ''EACCES'' ''spawn sqlfluff EACCES'') ?s
     = ?s\<lparr>executableNotFound := True, messages := [''spawn sqlfluff EACCES'']\<rparr>"
    using unset onError_sets_flag_for_every_kind
          [of example_document "''sqlfluff''" "example_error ''EACCES'' ''spawn sqlfluff EACCES''"
            ?s example_document ?e "''/w''" "[]" ?lc]
    by (simp add: example_error_def) (simp add: example_state2_def)
  have b: "messages (onError example_document ''sqlfluff'' (example_error ''EPERM'' []) ?s)
     = [''Failed to run executable using path: sqlfluff. Reason is unknown.'']"
    using unset onError_sets_flag_for_every_kind
          [of example_document "''sqlfluff''" "example_error ''EPERM'' []"
            ?s example_document ?e "''/w''" "[]" ?lc]
    by (simp add: example_error_def) (simp add: example_state2_def)
  have c: "messages (onError example_document ''sqlfluff'' (example_error ''ENOENT'' ''spawn sqlfluff ENOENT'') ?s)
     = [''Cannot lint /w/a.sql. The executable was not found. Use the 'Executable Path' setting to configure the location of the executable'']"
    using unset onError_sets_flag_for_every_kind
          [of example_document "''sqlfluff''" "example_error ''ENOENT'' ''spawn sqlfluff ENOENT''"
            ?s example_document ?e "''/w''" "[]" ?lc]
    by (simp add: example_error_def) (simp add: example_state2_def example_document_def)
  have d: "onError example_document ''sqlfluff'' (example_error ''ENOENT'' ''spawn sqlfluff ENOENT'')
          (?s\<lparr>executableNotFound := True\<rparr>) = ?s\<lparr>executableNotFound := True\<rparr>"
    using onError_sets_flag_for_every_kind
          [of example_document "''sqlfluff''" "example_error ''ENOENT'' ''spawn sqlfluff ENOENT''"
            "?s\<lparr>executableNotFound := True\<rparr>" example_document ?e "''/w''" "[]" ?lc]
    by simp
  have e: "executableNotFound
       (step2 ?e
          (onError example_document ''sqlfluff'' (example_error ''EACCES'' ''spawn sqlfluff EACCES'') ?s))"
    using ev onError_sets_flag_for_every_kind
          [of example_document "''sqlfluff''" "example_error ''EACCES'' ''spawn sqlfluff EACCES''"
            ?s example_document ?e "''/w''" "[]" ?lc]
    by blast
  have f: "doLint2 example_document (example_state2 [] ''onSave'')
       = Thrown TypeError (example_state2 [] ''onSave'')"
    using throws onError_sets_flag_for_every_kind
          [of example_document "[]" "example_error ''ENOENT'' []"
            "example_state2 [] ''onSave''" example_document ?e "''/w''" "[]"
            "example_linterConfiguration [] ''onSave''"]
    by blast
  from a b c d e f show ?thesis by blast
qed

section \<open>The project sweep\<close>
















section \<open>One analysis per delayer\<close>

lemma triggerLint_running: "running (triggerLint d f c s) = running s"
  by (simp add: triggerLint_def Let_def split: option.splits)

lemma triggerLint_one: "one_per_delayer s \<Longrightarrow> one_per_delayer (triggerLint d f c s)"
  unfolding one_per_delayer_def started_by_delayer_def triggerLint_running
  by (auto simp add: triggerLint_def trigger_def Let_def split: option.splits)

lemma triggerLint_owns: "table_owns s \<Longrightarrow> table_owns (triggerLint d f c s)"
  unfolding table_owns_def triggerLint_running
  apply (auto simp add: triggerLint_def trigger_def new_ThrottledDelayer_def Let_def
      split: option.splits if_splits)
    apply (metis less_SucE option.distinct(1))+
  done

lemma fold_triggerLint_one:
  "one_per_delayer s \<Longrightarrow>
   one_per_delayer (fold (\<lambda>file t. triggerLint (open file) f c t) files s)"
  by (induction files arbitrary: s) (simp_all add: triggerLint_one)

lemma fold_triggerLint_owns:
  "table_owns s \<Longrightarrow> table_owns (fold (\<lambda>file t. triggerLint (open file) f c t) files s)"
  by (induction files arbitrary: s) (simp_all add: triggerLint_owns)

lemma timerFires_one: "one_per_delayer s \<Longrightarrow> one_per_delayer (timerFires r s)"
  unfolding one_per_delayer_def started_by_delayer_def
  by (auto simp add: timerFires_def Let_def split: option.splits sum.splits)

lemma timerFires_owns: "table_owns s \<Longrightarrow> table_owns (timerFires r s)"
  unfolding table_owns_def
  by (auto simp add: timerFires_def Let_def split: option.splits sum.splits if_splits)

lemma doLint_direct_one: "one_per_delayer s \<Longrightarrow> one_per_delayer (doLint_direct d c s)"
  unfolding one_per_delayer_def started_by_delayer_def
  by (auto simp add: doLint_direct_def split: sum.splits)

lemma remove_nth_subset: "set (take i xs @ drop (Suc i) xs) \<subseteq> set xs"
  using set_take_subset [of i xs] set_drop_subset [of "Suc i" xs] by auto

lemma distinct_map_without_middle:
  "distinct (map f (A @ x # B)) \<Longrightarrow>
   distinct (map f (A @ B)) \<and> (\<forall>a\<in>set (A @ B). f a \<noteq> f x)"
  by (induction A) (auto simp add: image_iff)

lemma distinct_without_middle:
  assumes "distinct (map f (filter P (A @ x # B)))"
  shows "distinct (map f (filter P (A @ B)))
     \<and> (P x \<longrightarrow> (\<forall>a\<in>set (filter P (A @ B)). f a \<noteq> f x))"
proof (cases "P x")
  case False
  with assms show ?thesis by simp
next
  case True
  with assms have "distinct (map f (filter P A @ x # filter P B))" by simp
  then have "distinct (map f (filter P A @ filter P B))
      \<and> (\<forall>a\<in>set (filter P A @ filter P B). f a \<noteq> f x)"
    by (rule distinct_map_without_middle)
  then show ?thesis by (simp only: filter_append) simp
qed

lemma remove_nth_distinct:
  assumes "distinct (map f (filter P xs))" and "i < length xs"
  shows "distinct (map f (filter P (take i xs @ drop (Suc i) xs)))
     \<and> (P (xs ! i) \<longrightarrow> (\<forall>a\<in>set (filter P (take i xs @ drop (Suc i) xs)). f a \<noteq> f (xs ! i)))"
proof -
  have "xs = take i xs @ xs ! i # drop (Suc i) xs"
    using assms(2) by (rule id_take_nth_drop)
  then have "distinct (map f (filter P (take i xs @ xs ! i # drop (Suc i) xs)))"
    using assms(1) by simp
  then show ?thesis by (rule distinct_without_middle)
qed

lemma doLint_resume_fields:
  "running (doLint_resume d res s) = running s"
  "delayerObjects (doLint_resume d res s) = delayerObjects s"
  "delayerCount (doLint_resume d res s) = delayerCount s"
  "delayers (doLint_resume d res s) = delayers s"
  by (simp_all add: doLint_resume_def Let_def split: option.splits)

lemma runSettles_one: "one_per_delayer s \<Longrightarrow> one_per_delayer (runSettles i res s)"
proof (cases "i < length (running s)")
  case False
  assume "one_per_delayer s"
  with False show ?thesis by (simp add: runSettles_def)
next
  case True
  assume inv: "one_per_delayer s"
  let ?rest = "take i (running s) @ drop (Suc i) (running s)"
  let ?P = "\<lambda>a. owner a \<noteq> None"
  from inv have d: "distinct (map owner (filter ?P (running s)))"
    by (simp add: one_per_delayer_def started_by_delayer_def)
  from remove_nth_distinct [OF d True]
  have r: "distinct (map owner (filter ?P ?rest))"
    "?P (running s ! i) \<longrightarrow> (\<forall>a\<in>set (filter ?P ?rest). owner a \<noteq> owner (running s ! i))"
    by simp_all
  have sub: "set ?rest \<subseteq> set (running s)" by (rule remove_nth_subset)
  from inv sub have fl: "\<forall>a\<in>set ?rest. \<forall>q. owner a = Some q
      \<longrightarrow> inFlight (delayerObjects s q) \<and> q < delayerCount s"
    unfolding one_per_delayer_def by blast
  show ?thesis
  proof (cases "owner (running s ! i)")
    case None
    with True r(1) fl show ?thesis
      by (simp add: runSettles_def one_per_delayer_def started_by_delayer_def Let_def
          doLint_resume_fields)
  next
    case (Some q)
    with r(2) have other: "\<forall>a\<in>set ?rest. owner a \<noteq> None \<longrightarrow> owner a \<noteq> Some q"
      by simp
    from fl other
    have "\<forall>a\<in>set ?rest. \<forall>p. owner a = Some p
        \<longrightarrow> inFlight (((delayerObjects s)(q := (delayerObjects s q)\<lparr>inFlight := False\<rparr>)) p)
          \<and> p < delayerCount s"
      by auto
    with True Some r(1) show ?thesis
      by (simp add: runSettles_def one_per_delayer_def started_by_delayer_def Let_def
          doLint_resume_fields)
  qed
qed

lemma runSettles_owns: "table_owns s \<Longrightarrow> table_owns (runSettles i res s)"
proof (cases "i < length (running s)")
  case False
  assume "table_owns s"
  with False show ?thesis by (simp add: runSettles_def)
next
  case True
  assume inv: "table_owns s"
  let ?rest = "take i (running s) @ drop (Suc i) (running s)"
  have sub: "set ?rest \<subseteq> set (running s)" by (rule remove_nth_subset)
  from inv sub
  have "\<forall>a\<in>set ?rest. owner a \<noteq> None \<and> delayers s (uri (document a)) = owner a"
    unfolding table_owns_def by blast
  with inv True show ?thesis
    by (simp add: runSettles_def table_owns_def Let_def doLint_resume_fields
        split: option.splits)
qed

lemma one_per_delayer_same_fields:
  "one_per_delayer s \<Longrightarrow> running t = running s \<Longrightarrow> delayerObjects t = delayerObjects s \<Longrightarrow>
   delayerCount t = delayerCount s \<Longrightarrow> one_per_delayer t"
  by (simp add: one_per_delayer_def started_by_delayer_def)

lemma table_owns_same_fields:
  "table_owns s \<Longrightarrow> running t = running s \<Longrightarrow> delayerObjects t = delayerObjects s \<Longrightarrow>
   delayerCount t = delayerCount s \<Longrightarrow> delayers t = delayers s \<Longrightarrow> table_owns t"
  by (simp add: table_owns_def)

lemma loadConfiguration_fields:
  "running (loadConfiguration s) = running s"
  "delayerObjects (loadConfiguration s) = delayerObjects s"
  "delayerCount (loadConfiguration s) = delayerCount s"
  by (simp_all add: loadConfiguration_def set_documentListener_def subscribe_def
      dispose_listener_def lintProject_def Let_def split: option.splits)

lemma activate_fields:
  "running (activate s) = running s"
  "delayerObjects (activate s) = delayerObjects s"
  "delayerCount (activate s) = delayerCount s"
  by (simp_all add: activate_def loadConfiguration_fields subscribe_def lintProject_def Let_def)

lemma handler_one: "one_per_delayer s \<Longrightarrow> one_per_delayer (handler l doc s)"
proof (cases l)
  case ConfigurationListener
  assume "one_per_delayer s"
  then have "one_per_delayer (loadConfiguration s)"
    by (rule one_per_delayer_same_fields) (simp_all add: loadConfiguration_fields)
  with ConfigurationListener show ?thesis by simp
next
  case CloseListener
  assume "one_per_delayer s"
  then have "one_per_delayer (onDidCloseTextDocument doc s)"
    by (rule one_per_delayer_same_fields) (simp_all add: onDidCloseTextDocument_def Let_def)
  with CloseListener show ?thesis by simp
qed (simp_all add: triggerLint_one)

lemma handler_owns:
  "table_owns s \<Longrightarrow> l \<in> {OpenListener, ChangeListener, SaveListener} \<Longrightarrow>
   table_owns (handler l doc s)"
  by (cases l) (simp_all add: triggerLint_owns)

lemma fold_handler_one:
  "one_per_delayer t \<Longrightarrow>
   one_per_delayer (fold (\<lambda>(h, l) t. if l = kind then handler l doc t else t) ls t)"
proof (induction ls arbitrary: t)
  case Nil
  then show ?case by simp
next
  case (Cons x ls)
  obtain h l where x: "x = (h, l)" by (cases x)
  from Cons.prems have "one_per_delayer (if l = kind then handler l doc t else t)"
    by (simp add: handler_one)
  then have "one_per_delayer (fold (\<lambda>(h, l) t. if l = kind then handler l doc t else t) ls
      (if l = kind then handler l doc t else t))"
    by (rule Cons.IH)
  with x show ?case by simp
qed

lemma fold_handler_owns:
  "table_owns t \<Longrightarrow> kind \<in> {OpenListener, ChangeListener, SaveListener} \<Longrightarrow>
   table_owns (fold (\<lambda>(h, l) t. if l = kind then handler l doc t else t) ls t)"
proof (induction ls arbitrary: t)
  case Nil
  then show ?case by simp
next
  case (Cons x ls)
  obtain h l where x: "x = (h, l)" by (cases x)
  from Cons.prems have "table_owns (if l = kind then handler l doc t else t)"
    by (simp add: handler_owns)
  then have "table_owns (fold (\<lambda>(h, l) t. if l = kind then handler l doc t else t) ls
      (if l = kind then handler l doc t else t))"
    using Cons.prems(2) by (rule Cons.IH)
  with x show ?case by simp
qed

lemma step_one: "one_per_delayer s \<Longrightarrow> one_per_delayer (step e s)"
proof (cases e)
  case Activate
  assume "one_per_delayer s"
  then have "one_per_delayer (activate s)"
    by (rule one_per_delayer_same_fields) (simp_all add: activate_fields)
  with Activate show ?thesis by simp
next
  case (DidChangeConfiguration c)
  assume "one_per_delayer s"
  then have "one_per_delayer (s\<lparr>configuration := c\<rparr>)"
    by (rule one_per_delayer_same_fields) simp_all
  with DidChangeConfiguration show ?thesis by (simp add: fire_def fold_handler_one)
next
  case (DidChangeTextDocument d body)
  assume "one_per_delayer s"
  then have "one_per_delayer (s\<lparr>liveText := (liveText s)(uri d := body)\<rparr>)"
    by (rule one_per_delayer_same_fields) simp_all
  with DidChangeTextDocument show ?thesis by (simp add: fire_def fold_handler_one)
next
  case (LintProject f)
  assume "one_per_delayer s"
  then have "one_per_delayer (lintProject f s)"
    by (rule one_per_delayer_same_fields) (simp_all add: lintProject_def)
  with LintProject show ?thesis by simp
next
  case (FilesFound i files opener)
  assume a: "one_per_delayer s"
  then have "one_per_delayer
      (s\<lparr>findFilesCalls := take i (findFilesCalls s) @ drop (Suc i) (findFilesCalls s)\<rparr>)"
    by (rule one_per_delayer_same_fields) simp_all
  with a FilesFound show ?thesis by (simp add: lintProject_found_def fold_triggerLint_one)
next
  case Dispose
  assume "one_per_delayer s"
  then have "one_per_delayer (dispose s)"
    by (rule one_per_delayer_same_fields) (simp_all add: dispose_def)
  with Dispose show ?thesis by simp
qed (simp_all add: fire_def fold_handler_one timerFires_one runSettles_one doLint_direct_one)

lemma step_owns: "table_owns s \<Longrightarrow> stable e \<Longrightarrow> table_owns (step e s)"
proof (cases e)
  case (DidChangeTextDocument d body)
  assume "table_owns s"
  then have "table_owns (s\<lparr>liveText := (liveText s)(uri d := body)\<rparr>)"
    by (rule table_owns_same_fields) simp_all
  with DidChangeTextDocument show ?thesis by (simp add: fire_def fold_handler_owns)
next
  case (LintProject f)
  assume "table_owns s"
  then have "table_owns (lintProject f s)"
    by (rule table_owns_same_fields) (simp_all add: lintProject_def)
  with LintProject show ?thesis by simp
next
  case (FilesFound i files opener)
  assume a: "table_owns s"
  then have "table_owns
      (s\<lparr>findFilesCalls := take i (findFilesCalls s) @ drop (Suc i) (findFilesCalls s)\<rparr>)"
    by (rule table_owns_same_fields) simp_all
  with a FilesFound show ?thesis by (simp add: lintProject_found_def fold_triggerLint_owns)
next
  case Dispose
  assume "table_owns s"
  then have "table_owns (dispose s)"
    by (rule table_owns_same_fields) (simp_all add: dispose_def)
  with Dispose show ?thesis by simp
qed (simp_all add: fire_def fold_handler_owns timerFires_owns runSettles_owns)

lemma run_one: "one_per_delayer s \<Longrightarrow> one_per_delayer (run es s)"
  unfolding run_def by (induction es arbitrary: s) (simp_all add: step_one)

lemma run_owns: "table_owns s \<Longrightarrow> list_all stable es \<Longrightarrow> table_owns (run es s)"
  unfolding run_def by (induction es arbitrary: s) (simp_all add: step_owns)

lemma one_per_document:
  assumes "one_per_delayer s" and "table_owns s"
  shows "distinct (map (\<lambda>a. uri (document a)) (running s))"
proof -
  have all: "filter (\<lambda>a. owner a \<noteq> None) (running s) = running s"
    using assms(2) by (simp add: table_owns_def)
  have "distinct (map owner (filter (\<lambda>a. owner a \<noteq> None) (running s)))"
    using assms(1) unfolding one_per_delayer_def started_by_delayer_def by (rule conjunct1)
  then have d: "distinct (map owner (running s))"
    unfolding all .
  have e: "map owner (running s) = map (\<lambda>a. delayers s (uri (document a))) (running s)"
    using assms(2) by (simp add: table_owns_def)
  have "map (\<lambda>a. delayers s (uri (document a))) (running s)
      = map (delayers s) (map (\<lambda>a. uri (document a)) (running s))"
    by (simp add: comp_def)
  with d e have "distinct (map (delayers s) (map (\<lambda>a. uri (document a)) (running s)))"
    by (simp only:)
  then show ?thesis
    by (simp only: distinct_map [of _ "map (\<lambda>a. uri (document a)) (running s)"])
qed

lemma timerFires2_inFlight:
  "inFlight (delayerObjects2 (state_of (timerFires2 r s)) q) = inFlight (delayerObjects2 s q)"
  by (simp add: timerFires2_def doLint2_def Let_def
      split: option.splits list.splits Spawn.splits)

lemma timerFires2_spawns:
  assumes "pending (delayerObjects2 s r) = Some doc" and "\<not> inFlight (delayerObjects2 s r)"
    and "r < delayerCount s" and "workspaceFolders s = Some (root # rest)"
    and "linterConfiguration s = Some lc"
    and "spawn s (executable lc) (doLint2_args lc doc) = Spawned pid"
  shows "\<exists>child. children (state_of (timerFires2 r s)) = children s @ [child]
     \<and> child_document child = doc \<and> child_pid child = pid"
  using assms by (simp add: timerFires2_def doLint2_def Let_def)


lemmas trace_defs = run_def activate_def loadConfiguration_def subscribe_def set_documentListener_def
  dispose_listener_def fire_def lintProject_def example_state_def example_configuration_def
  Let_def triggerLint_def trigger_def new_ThrottledDelayer_def example_document_def
  example_linter_def timerFires_def runSettles_def doLint_call_def doLint_resume_def
  onDidCloseTextDocument_def

lemmas trace2_defs = run2_def example_busy2_def activate2_def loadConfiguration2_def subscribe_def
  set_documentListener_def dispose_listener_def fire2_def example_state2_def
  example_linterConfiguration_def RunTrigger_from_def Let_def triggerLint2_def trigger_def
  new_ThrottledDelayer_def timerFires2_def doLint2_def doLint2_args_def example_spawn_def
  onEndEvent_def example_document_def example_linter_def

text \<open>
  C3, as stated, fails in both variants. In the first, after a change of configuration
  the table is empty, the next trigger for the document creates a new delayer, and its
  analysis starts beside the one still waiting; the older analysis, finishing last,
  overwrites the result of the newer. In the second, with no reload and no close, the one
  delayer of the document starts a second child while the first still runs, and the
  older child, ending last, overwrites the result of the newer.
\<close>

theorem second_analysis_beside_first:
  "map (\<lambda>a. uri (document a)) (running (run example_reset (example_state onSave)))
     = [''file:///w/a.sql'', ''file:///w/a.sql'']
   \<and> diagnosticCollection
       (run (example_reset @
             [RunSettles 1 \<lparr>succeeded = True, lines = Some [''newer'']\<rparr>,
              RunSettles 0 \<lparr>succeeded = True, lines = Some [''older'']\<rparr>])
          (example_state onSave))
       ''file:///w/a.sql'' = Some [Diagnostic ''older'']
   \<and> map (\<lambda>c. (uri (child_document c), child_pid c))
       (children (state_of (timerFires2 0 example_busy2)))
     = [(''file:///w/a.sql'', Some 4711), (''file:///w/a.sql'', Some 4711)]
   \<and> delayerCount (state_of (timerFires2 0 example_busy2)) = 1
   \<and> diagnosticCollection
       (run2 [ChildEnd 1 (Some [''newer'']), ChildEnd 0 (Some [''older''])]
          (state_of (timerFires2 0 example_busy2)))
       ''file:///w/a.sql'' = Some [Diagnostic ''older'']"
  by (simp add: example_reset_def trace_defs) (simp add: trace2_defs)

lemma example_burst_fields:
  "running example_activated = []"
  "delayerCount example_activated = 0"
  "list_all stable example_burst"
  "map (\<lambda>a. uri (document a)) (running (run example_burst example_activated))
     = [''file:///w/a.sql'']"
  "pending (delayerObjects (run example_burst example_activated) 0)
     = Some \<lparr>task_document = example_document, task_currentDocument = False\<rparr>"
  "inFlight (delayerObjects (run example_burst example_activated) 0)"
  by (simp_all add: example_burst_def example_activated_def trace_defs)

lemma example_busy2_fields:
  "pending (delayerObjects2 example_busy2 0) = Some example_document"
  "\<not> inFlight (delayerObjects2 example_busy2 0)"
  "0 < delayerCount example_busy2"
  "workspaceFolders example_busy2 = Some (''/w'' # [])"
  "linterConfiguration example_busy2 = Some (example_linterConfiguration ''sqlfluff'' ''onSave'')"
  "spawn example_busy2 (executable (example_linterConfiguration ''sqlfluff'' ''onSave''))
     (doLint2_args (example_linterConfiguration ''sqlfluff'' ''onSave'') example_document)
     = Spawned (Some 4711)"
  "length (children example_busy2) = 1"
  by (simp_all add: trace2_defs)

text \<open>
  C3, amended. In the first variant, from a state with no analysis waiting and after any
  events, no two waiting analyses were started by the same delayer; if moreover no task
  was queued at the start and no event since has run \<^verbatim>\<open>loadConfiguration\<close>, closed a
  document or called \<^verbatim>\<open>doLint\<close> past the delayers, no two waiting analyses are for the
  same document. There a trigger leaves the waiting analyses as they are, and the timer
  of a delayer in flight starts nothing. In the second variant running a task never
  leaves a delayer in flight, and whenever the timer of a delayer fires with a task
  queued and the spawn returns a child, that child is added to the children of the
  document, whatever children are still running.
\<close>

theorem one_analysis_per_delayer:
  "(running s = [] \<longrightarrow>
      distinct (map owner (started_by_delayer (run es s)))
      \<and> ((\<forall>r<delayerCount s. pending (delayerObjects s r) = None) \<and> list_all stable es
           \<longrightarrow> distinct (map (\<lambda>a. uri (document a)) (running (run es s)))))
   \<and> running (triggerLint d f c t) = running t
   \<and> (inFlight (delayerObjects t r) \<longrightarrow> timerFires r t = t)
   \<and> inFlight (delayerObjects2 (state_of (timerFires2 r s2)) q) = inFlight (delayerObjects2 s2 q)
   \<and> (pending (delayerObjects2 s2 r) = Some doc \<and> \<not> inFlight (delayerObjects2 s2 r)
       \<and> r < delayerCount s2 \<and> workspaceFolders s2 = Some (root # rest)
       \<and> linterConfiguration s2 = Some lc
       \<and> spawn s2 (executable lc) (doLint2_args lc doc) = Spawned pid
      \<longrightarrow> (\<exists>child. children (state_of (timerFires2 r s2)) = children s2 @ [child]
             \<and> child_document child = doc \<and> child_pid child = pid))"
proof (intro conjI impI)
  assume q: "running s = []"
  then have "one_per_delayer s" by (simp add: one_per_delayer_def started_by_delayer_def)
  then have one: "one_per_delayer (run es s)" by (rule run_one)
  then show "distinct (map owner (started_by_delayer (run es s)))"
    by (simp add: one_per_delayer_def)
  {
    assume "(\<forall>r<delayerCount s. pending (delayerObjects s r) = None) \<and> list_all stable es"
    with q have "table_owns s" and "list_all stable es" by (simp_all add: table_owns_def)
    then have "table_owns (run es s)" by (rule run_owns)
    with one show "distinct (map (\<lambda>a. uri (document a)) (running (run es s)))"
      by (rule one_per_document)
  }
next
  show "running (triggerLint d f c t) = running t"
    by (rule triggerLint_running)
next
  assume "inFlight (delayerObjects t r)"
  then show "timerFires r t = t"
    by (simp add: timerFires_def Let_def split: option.splits)
next
  show "inFlight (delayerObjects2 (state_of (timerFires2 r s2)) q) = inFlight (delayerObjects2 s2 q)"
    by (rule timerFires2_inFlight)
next
  assume "pending (delayerObjects2 s2 r) = Some doc \<and> \<not> inFlight (delayerObjects2 s2 r)
       \<and> r < delayerCount s2 \<and> workspaceFolders s2 = Some (root # rest)
       \<and> linterConfiguration s2 = Some lc
       \<and> spawn s2 (executable lc) (doLint2_args lc doc) = Spawned pid"
  then show "\<exists>child. children (state_of (timerFires2 r s2)) = children s2 @ [child]
             \<and> child_document child = doc \<and> child_pid child = pid"
    using timerFires2_spawns [of s2 r doc root rest lc pid] by blast
qed

theorem one_analysis_per_delayer_witness:
  "running example_activated = []
   \<and> list_all stable example_burst
   \<and> map (\<lambda>a. uri (document a)) (running (run example_burst example_activated))
       = [''file:///w/a.sql'']
   \<and> distinct (map owner (started_by_delayer (run example_burst example_activated)))
   \<and> distinct (map (\<lambda>a. uri (document a)) (running (run example_burst example_activated)))
   \<and> inFlight (delayerObjects (run example_burst example_activated) 0)
   \<and> timerFires 0 (run example_burst example_activated) = run example_burst example_activated
   \<and> length (children example_busy2) = 1
   \<and> (\<exists>child. children (state_of (timerFires2 0 example_busy2)) = children example_busy2 @ [child]
         \<and> child_document child = example_document \<and> child_pid child = Some 4711)"
proof -
  note main = one_analysis_per_delayer
      [of example_activated example_burst example_document False False
        "run example_burst example_activated" 0 example_busy2 0 example_document
        "''/w''" "[]" "example_linterConfiguration ''sqlfluff'' ''onSave''" "Some 4711"]
  have quiet: "\<forall>r<delayerCount example_activated.
      pending (delayerObjects example_activated r) = None"
    by (simp add: example_burst_fields(2))
  from main example_burst_fields(1)
  have one: "distinct (map owner (started_by_delayer (run example_burst example_activated)))"
    by blast
  from main example_burst_fields(1,3) quiet
  have doc: "distinct (map (\<lambda>a. uri (document a)) (running (run example_burst example_activated)))"
    by blast
  from main example_burst_fields(6)
  have wait: "timerFires 0 (run example_burst example_activated) = run example_burst example_activated"
    by blast
  from main example_busy2_fields(1-6)
  have more: "\<exists>child. children (state_of (timerFires2 0 example_busy2))
        = children example_busy2 @ [child]
      \<and> child_document child = example_document \<and> child_pid child = Some 4711"
    by blast
  from example_burst_fields(1,3,4,6) example_busy2_fields(7) one doc wait more
  show ?thesis by blast
qed

end
